theory Spec2Isabelle
  imports Main
begin

section \<open>Machine integers\<close>

text \<open>
  The Go and C sources compute on fixed-width signed integers.  They are modelled as
  mathematical integers; every place where the source narrows or increments a value of
  a fixed width goes through one of the functions below, which write the two's
  complement wrap-around out.
\<close>

definition wrap64 :: "int \<Rightarrow> int" where
  "wrap64 x = (x + 9223372036854775808) mod 18446744073709551616 - 9223372036854775808"

definition wrap32 :: "int \<Rightarrow> int" where
  "wrap32 x = (x + 2147483648) mod 4294967296 - 2147483648"

definition to_uint32 :: "int \<Rightarrow> int" where
  "to_uint32 x = x mod 4294967296"


section \<open>The Go I/O dispatcher (package avpipe)\<close>

text \<open>
  Backend objects (input handlers, output handlers, openers) are Go interface values;
  the model keeps their identity as a number.  What a backend method returns on one
  call is an argument of the dispatcher function that makes the call.
\<close>

type_synonym backend_ref = nat

text \<open>\<^verbatim>\<open>enum avp_stream_type\<close> of the C side, as switched on by \<^verbatim>\<open>AVPipeOpenOutput\<close>
  and \<^verbatim>\<open>out_opener\<close>.\<close>

datatype avp_stream_type =
    avpipe_video_init_stream
  | avpipe_audio_init_stream
  | avpipe_manifest
  | avpipe_video_segment
  | avpipe_audio_segment
  | avpipe_master_m3u
  | avpipe_video_m3u
  | avpipe_audio_m3u
  | avpipe_aes_128_key
  | avpipe_mp4_stream
  | avpipe_fmp4_stream
  | avpipe_mp4_segment
  | avpipe_fmp4_segment

datatype AVType =
    Unknown
  | DASHManifest
  | DASHVideoInit
  | DASHVideoSegment
  | DASHAudioInit
  | DASHAudioSegment
  | HLSMasterM3U
  | HLSVideoM3U
  | HLSAudioM3U
  | AES128Key
  | MP4Stream
  | FMP4Stream
  | MP4Segment
  | FMP4Segment

text \<open>\<^verbatim>\<open>type ioHandler struct { input; mutex; outTable map[int64]OutputHandler }\<close>.
  A missing key and a nil value both read as nil in Go, which is \<open>None\<close> here.\<close>

record ioHandler =
  input :: backend_ref
  outTable :: "int \<Rightarrow> backend_ref option"

text \<open>
  The package globals.  \<open>gHandlers\<close> is a map of pointers: \<open>None\<close> is a missing key,
  \<open>Some None\<close> a key whose value is nil (what \<^verbatim>\<open>AVPipeCloseInput\<close> leaves behind).
\<close>

record go_state =
  gHandlers :: "int \<Rightarrow> ioHandler option option"
  gURLInputOpeners :: "string \<Rightarrow> backend_ref option"
  gURLOutputOpeners :: "string \<Rightarrow> backend_ref option"
  gHandleNum :: int
  gFd :: int
  gInputOpener :: "backend_ref option"
  gOutputOpener :: "backend_ref option"

text \<open>A Go call either returns a C integer or panics.\<close>

datatype go_result = Panic | Ret int

text \<open>\<^verbatim>\<open>h := gHandlers[int64(fd)]\<close>\<close>

definition handler_of :: "go_state \<Rightarrow> int \<Rightarrow> ioHandler option" where
  "handler_of s fd = (case gHandlers s fd of None \<Rightarrow> None | Some p \<Rightarrow> p)"

definition getOutTable :: "ioHandler \<Rightarrow> int \<Rightarrow> backend_ref option" where
  "getOutTable h fd = outTable h fd"

definition putOutTable :: "ioHandler \<Rightarrow> int \<Rightarrow> backend_ref \<Rightarrow> ioHandler" where
  "putOutTable h fd outHandler = h\<lparr>outTable := (outTable h)(fd \<mapsto> outHandler)\<rparr>"

text \<open>
  \<^verbatim>\<open>NewIOHandler(url, size)\<close>.  \<open>open_res\<close> is what \<^verbatim>\<open>urlInputOpener.Open(fd, filename)\<close>
  gives: \<open>None\<close> for an error, otherwise the input handler and its \<^verbatim>\<open>Size()\<close>.
  The result is the returned handle, the value stored through \<^verbatim>\<open>size\<close> (if any) and the
  new globals.
\<close>

definition NewIOHandler ::
  "string \<Rightarrow> (backend_ref \<times> int) option \<Rightarrow> go_state \<Rightarrow> int \<times> int option \<times> go_state" where
  "NewIOHandler filename open_res s =
     (let urlInputOpener = (case gURLInputOpeners s filename of
                              Some p \<Rightarrow> Some p | None \<Rightarrow> gInputOpener s);
          urlOutputOpener = (case gURLOutputOpeners s filename of
                              Some p \<Rightarrow> Some p | None \<Rightarrow> gOutputOpener s)
      in if urlInputOpener = None \<or> urlOutputOpener = None then (- 1, None, s)
         else
           let s1 = s\<lparr>gHandleNum := wrap64 (gHandleNum s + 1)\<rparr>;
               fd = gHandleNum s1
           in case open_res of
                None \<Rightarrow> (- 1, None, s1)
              | Some (inp, sz) \<Rightarrow>
                  (fd, Some sz,
                   s1\<lparr>gHandlers := (gHandlers s1)(fd \<mapsto> Some \<lparr>input = inp, outTable = Map.empty\<rparr>)\<rparr>))"

text \<open>
  \<^verbatim>\<open>AVPipeReadInput(fd, buf, sz)\<close>.  \<open>(n, err)\<close> is what \<^verbatim>\<open>h.input.Read(gobuf)\<close> returns,
  \<open>err\<close> being true for a non-nil error.  \<^verbatim>\<open>make([]byte, sz)\<close> panics on a negative
  length and \<^verbatim>\<open>&gobuf[0]\<close> on an empty slice.
\<close>

definition AVPipeReadInput :: "int \<Rightarrow> int \<Rightarrow> int \<times> bool \<Rightarrow> go_state \<Rightarrow> go_result" where
  "AVPipeReadInput fd sz backend s =
     (case handler_of s fd of
        None \<Rightarrow> Ret (- 1)
      | Some h \<Rightarrow>
          (case backend of (n, err) \<Rightarrow>
             if sz < 0 then Panic
             else if n > 0 \<and> sz = 0 then Panic
             else if err then Ret (- 1)
             else Ret (wrap32 n)))"

text \<open>\<^verbatim>\<open>AVPipeSeekInput(fd, offset, whence)\<close>; \<open>(n, err)\<close> is the result of \<^verbatim>\<open>h.input.Seek\<close>.\<close>

definition AVPipeSeekInput :: "int \<Rightarrow> int \<times> bool \<Rightarrow> go_state \<Rightarrow> go_result" where
  "AVPipeSeekInput fd backend s =
     (case handler_of s fd of
        None \<Rightarrow> Ret (- 1)
      | Some h \<Rightarrow> (case backend of (n, err) \<Rightarrow> if err then Ret (- 1) else Ret (wrap64 n)))"

text \<open>\<^verbatim>\<open>AVPipeCloseInput(fd)\<close>; \<open>err\<close> is the result of \<^verbatim>\<open>h.input.Close()\<close>.  The table
  entry is set to nil, the key stays.\<close>

definition AVPipeCloseInput :: "int \<Rightarrow> bool \<Rightarrow> go_state \<Rightarrow> go_result \<times> go_state" where
  "AVPipeCloseInput fd err s =
     (case handler_of s fd of
        None \<Rightarrow> (Ret (- 1), s)
      | Some h \<Rightarrow>
          (let s' = s\<lparr>gHandlers := (gHandlers s)(fd \<mapsto> None)\<rparr>
           in if err then (Ret (- 1), s') else (Ret 0, s')))"

text \<open>\<^verbatim>\<open>AVPipeStatInput(fd, avp_stat, stat_args)\<close>; \<open>err\<close> is the result of \<^verbatim>\<open>h.InStat\<close>.\<close>

definition AVPipeStatInput :: "int \<Rightarrow> bool \<Rightarrow> go_state \<Rightarrow> go_result" where
  "AVPipeStatInput fd err s =
     (case handler_of s fd of
        None \<Rightarrow> Ret (- 1)
      | Some h \<Rightarrow> if err then Ret (- 1) else Ret 0)"

text \<open>The \<^verbatim>\<open>switch stream_type\<close> of \<^verbatim>\<open>AVPipeOpenOutput\<close>; \<open>None\<close> is a value outside
  the enumeration (the \<^verbatim>\<open>default\<close> branch).\<close>

fun out_type_of :: "avp_stream_type option \<Rightarrow> AVType option" where
  "out_type_of (Some avpipe_video_init_stream) = Some DASHVideoInit"
| "out_type_of (Some avpipe_audio_init_stream) = Some DASHAudioInit"
| "out_type_of (Some avpipe_manifest) = Some DASHManifest"
| "out_type_of (Some avpipe_video_segment) = Some DASHVideoSegment"
| "out_type_of (Some avpipe_audio_segment) = Some DASHAudioSegment"
| "out_type_of (Some avpipe_master_m3u) = Some HLSMasterM3U"
| "out_type_of (Some avpipe_video_m3u) = Some HLSVideoM3U"
| "out_type_of (Some avpipe_audio_m3u) = Some HLSAudioM3U"
| "out_type_of (Some avpipe_aes_128_key) = Some AES128Key"
| "out_type_of (Some avpipe_mp4_stream) = Some MP4Stream"
| "out_type_of (Some avpipe_fmp4_stream) = Some FMP4Stream"
| "out_type_of (Some avpipe_mp4_segment) = Some MP4Segment"
| "out_type_of (Some avpipe_fmp4_segment) = Some FMP4Segment"
| "out_type_of None = None"

text \<open>
  \<^verbatim>\<open>AVPipeOpenOutput(handler, stream_index, seg_index, stream_type)\<close> with the slot
  counter \<^verbatim>\<open>gFd\<close>.  \<open>open_res\<close> is the result of \<^verbatim>\<open>gOutputOpener.Open\<close> (\<open>None\<close>
  for an error); calling a method on a nil \<^verbatim>\<open>gOutputOpener\<close> panics.
\<close>

definition AVPipeOpenOutput ::
  "int \<Rightarrow> int \<Rightarrow> int \<Rightarrow> avp_stream_type option \<Rightarrow> backend_ref option \<Rightarrow> go_state
     \<Rightarrow> go_result \<times> go_state" where
  "AVPipeOpenOutput handler stream_index seg_index stream_type open_res s =
     (case handler_of s handler of
        None \<Rightarrow> (Ret (- 1), s)
      | Some h \<Rightarrow>
          (let s1 = s\<lparr>gFd := wrap64 (gFd s + 1)\<rparr>;
               fd = gFd s1
           in case out_type_of stream_type of
                None \<Rightarrow> (Ret (- 1), s1)
              | Some out_type \<Rightarrow>
                  if gOutputOpener s1 = None then (Panic, s1)
                  else (case open_res of
                          None \<Rightarrow> (Ret (- 1), s1)
                        | Some outHandler \<Rightarrow>
                            (Ret fd,
                             s1\<lparr>gHandlers :=
                                  (gHandlers s1)(handler \<mapsto> Some (putOutTable h fd outHandler))\<rparr>))))"

text \<open>
  \<^verbatim>\<open>AVPipeWriteOutput(handler, fd, buf, sz)\<close>; \<open>(n, err)\<close> is what the output handler's
  \<^verbatim>\<open>Write(gobuf)\<close> returns.  A slot that is not in the table is a panic, and so is
  \<^verbatim>\<open>C.GoBytes\<close> with a negative length.
\<close>

definition AVPipeWriteOutput :: "int \<Rightarrow> int \<Rightarrow> int \<Rightarrow> int \<times> bool \<Rightarrow> go_state \<Rightarrow> go_result" where
  "AVPipeWriteOutput handler fd sz backend s =
     (case handler_of s handler of
        None \<Rightarrow> Ret (- 1)
      | Some h \<Rightarrow>
          (case getOutTable h fd of
             None \<Rightarrow> Panic
           | Some outHandler \<Rightarrow>
               if sz < 0 then Panic
               else (case backend of (n, err) \<Rightarrow> if err then Ret (- 1) else Ret (wrap32 n))))"

text \<open>\<^verbatim>\<open>AVPipeSeekOutput\<close>: the method call on a nil slot entry panics.\<close>

definition AVPipeSeekOutput :: "int \<Rightarrow> int \<Rightarrow> int \<times> bool \<Rightarrow> go_state \<Rightarrow> go_result" where
  "AVPipeSeekOutput handler fd backend s =
     (case handler_of s handler of
        None \<Rightarrow> Ret (- 1)
      | Some h \<Rightarrow>
          (case getOutTable h fd of
             None \<Rightarrow> Panic
           | Some outHandler \<Rightarrow>
               (case backend of (n, err) \<Rightarrow> if err then Ret (- 1) else Ret (wrap32 n))))"

text \<open>\<^verbatim>\<open>AVPipeCloseOutput\<close>: the slot stays in the table.\<close>

definition AVPipeCloseOutput :: "int \<Rightarrow> int \<Rightarrow> bool \<Rightarrow> go_state \<Rightarrow> go_result" where
  "AVPipeCloseOutput handler fd err s =
     (case handler_of s handler of
        None \<Rightarrow> Ret (- 1)
      | Some h \<Rightarrow>
          (case getOutTable h fd of
             None \<Rightarrow> Panic
           | Some outHandler \<Rightarrow> if err then Ret (- 1) else Ret 0))"

text \<open>\<^verbatim>\<open>AVPipeStatOutput\<close>: \<^verbatim>\<open>OutStat\<close> returns an error for a nil slot entry; \<open>err\<close> is
  the result of the handler's \<^verbatim>\<open>Stat\<close>.\<close>

definition AVPipeStatOutput :: "int \<Rightarrow> int \<Rightarrow> bool \<Rightarrow> go_state \<Rightarrow> go_result" where
  "AVPipeStatOutput handler fd err s =
     (case handler_of s handler of
        None \<Rightarrow> Ret (- 1)
      | Some h \<Rightarrow>
          (case getOutTable h fd of
             None \<Rightarrow> Ret (- 1)
           | Some outHandler \<Rightarrow> if err then Ret (- 1) else Ret 0))"

text \<open>
  A call of the engine into the dispatcher, with the backend's answer, and the run of a
  sequence of calls from a state.  The run records every call with its result.
\<close>

datatype go_call =
    CallNew string "(backend_ref \<times> int) option"
  | CallRead int int "int \<times> bool"
  | CallSeek int "int \<times> bool"
  | CallClose int bool
  | CallStat int bool
  | CallOpenOutput int int int "avp_stream_type option" "backend_ref option"
  | CallWriteOutput int int int "int \<times> bool"
  | CallSeekOutput int int "int \<times> bool"
  | CallCloseOutput int int bool
  | CallStatOutput int int bool

fun go_step :: "go_call \<Rightarrow> go_state \<Rightarrow> go_result \<times> go_state" where
  "go_step (CallNew url r) s = (case NewIOHandler url r s of (h, sz, s') \<Rightarrow> (Ret h, s'))"
| "go_step (CallRead fd sz b) s = (AVPipeReadInput fd sz b s, s)"
| "go_step (CallSeek fd b) s = (AVPipeSeekInput fd b s, s)"
| "go_step (CallClose fd e) s = AVPipeCloseInput fd e s"
| "go_step (CallStat fd e) s = (AVPipeStatInput fd e s, s)"
| "go_step (CallOpenOutput h si sg ty r) s = AVPipeOpenOutput h si sg ty r s"
| "go_step (CallWriteOutput h fd sz b) s = (AVPipeWriteOutput h fd sz b s, s)"
| "go_step (CallSeekOutput h fd b) s = (AVPipeSeekOutput h fd b s, s)"
| "go_step (CallCloseOutput h fd e) s = (AVPipeCloseOutput h fd e s, s)"
| "go_step (CallStatOutput h fd e) s = (AVPipeStatOutput h fd e s, s)"

fun go_run :: "go_call list \<Rightarrow> go_state \<Rightarrow> (go_call \<times> go_result) list \<times> go_state" where
  "go_run [] s = ([], s)"
| "go_run (c # cs) s =
     (case go_step c s of (r, s') \<Rightarrow>
        (case go_run cs s' of (tr, s'') \<Rightarrow> ((c, r) # tr, s'')))"

text \<open>The handles that successful \<^verbatim>\<open>NewIOHandler\<close> calls returned, in order; the C caller
  \<^verbatim>\<open>in_opener\<close> takes \<open>h \<le> 0\<close> for a failure.\<close>

fun issued_handles :: "(go_call \<times> go_result) list \<Rightarrow> int list" where
  "issued_handles [] = []"
| "issued_handles ((CallNew url r, Ret h) # tr) =
     (if h \<noteq> - 1 then h # issued_handles tr else issued_handles tr)"
| "issued_handles (x # tr) = issued_handles tr"

text \<open>The slot ids that successful \<^verbatim>\<open>AVPipeOpenOutput\<close> calls returned, in order.\<close>

fun issued_slots :: "(go_call \<times> go_result) list \<Rightarrow> int list" where
  "issued_slots [] = []"
| "issued_slots ((CallOpenOutput h si sg ty r, Ret fd) # tr) =
     (if fd \<noteq> - 1 then fd # issued_slots tr else issued_slots tr)"
| "issued_slots (x # tr) = issued_slots tr"

text \<open>The state of the package when it is loaded, before any opener is set.\<close>

definition go_init :: go_state where
  "go_init = \<lparr>gHandlers = Map.empty, gURLInputOpeners = Map.empty,
              gURLOutputOpeners = Map.empty, gHandleNum = 0, gFd = 0,
              gInputOpener = None, gOutputOpener = None\<rparr>"

text \<open>\<^verbatim>\<open>InitIOHandler(inputOpener, outputOpener)\<close>; either argument may be nil.\<close>

definition InitIOHandler :: "backend_ref option \<Rightarrow> backend_ref option \<Rightarrow> go_state \<Rightarrow> go_state" where
  "InitIOHandler inputOpener outputOpener s =
     s\<lparr>gInputOpener := inputOpener, gOutputOpener := outputOpener\<rparr>"


section \<open>The C side of the dispatcher (avpipe.c)\<close>

text \<open>
  \<^verbatim>\<open>ioctx_t\<close>, with the fields the handlers of \<^verbatim>\<open>avpipe.c\<close> use.  \<open>opaque\<close> is the
  64-bit integer stored behind the \<^verbatim>\<open>opaque\<close> pointer: the session handle of an input
  context, the slot id of an output context (zero after \<^verbatim>\<open>calloc\<close>).
\<close>

record ioctx =
  opaque :: int
  sz :: int
  read_bytes :: int
  read_pos :: int
  read_reported :: int
  written_bytes :: int
  write_pos :: int

definition calloc_ioctx :: ioctx where
  "calloc_ioctx = \<lparr>opaque = 0, sz = 0, read_bytes = 0, read_pos = 0, read_reported = 0,
                   written_bytes = 0, write_pos = 0\<rparr>"

text \<open>\<^verbatim>\<open>in_opener(url, inctx)\<close> (without \<^verbatim>\<open>CHECK_C_READ\<close>): the status, the context and
  the Go globals after the call.\<close>

definition in_opener ::
  "string \<Rightarrow> (backend_ref \<times> int) option \<Rightarrow> ioctx \<Rightarrow> go_state \<Rightarrow> int \<times> ioctx \<times> go_state" where
  "in_opener url open_res inctx s =
     (case NewIOHandler url open_res s of
        (h, size_out, s') \<Rightarrow>
          if h \<le> 0 then (- 1, inctx, s')
          else
            (let inctx1 = (case size_out of
                             Some n \<Rightarrow> if n > 0 then inctx\<lparr>sz := n\<rparr> else inctx
                           | None \<Rightarrow> inctx)
             in (0, inctx1\<lparr>opaque := h\<rparr>, s')))"

text \<open>\<^verbatim>\<open>in_closer(inctx)\<close>: the result of \<^verbatim>\<open>AVPipeCloseInput\<close> is dropped.\<close>

definition in_closer :: "ioctx \<Rightarrow> bool \<Rightarrow> go_state \<Rightarrow> int \<times> go_state" where
  "in_closer inctx close_err s = (0, snd (AVPipeCloseInput (opaque inctx) close_err s))"

text \<open>
  \<^verbatim>\<open>in_read_packet(opaque, buf, buf_size)\<close> of \<^verbatim>\<open>avpipe.c\<close>.  \<open>report\<close> is the macro
  \<^verbatim>\<open>BYTES_READ_REPORT\<close>, whose definition is in a header outside the sources at hand.
  The call of \<^verbatim>\<open>in_stat\<close> only notifies the backend; its result is dropped.
\<close>

definition in_read_packet ::
  "int \<Rightarrow> go_state \<Rightarrow> ioctx \<Rightarrow> int \<Rightarrow> int \<times> bool \<Rightarrow> go_result \<times> ioctx" where
  "in_read_packet report s c buf_size backend =
     (case AVPipeReadInput (opaque c) buf_size backend s of
        Panic \<Rightarrow> (Panic, c)
      | Ret r \<Rightarrow>
          (let c1 = (if r > 0
                     then c\<lparr>read_bytes := read_bytes c + r, read_pos := read_pos c + r\<rparr>
                     else c);
               c2 = (if read_bytes c1 - read_reported c1 > report
                     then c1\<lparr>read_reported := read_bytes c1\<rparr>
                     else c1)
           in (Ret (if r > 0 then r else - 1), c2)))"

text \<open>\<^verbatim>\<open>out_write_packet(opaque, buf, buf_size)\<close> of \<^verbatim>\<open>avpipe.c\<close>; \<open>inctx\<close> is
  \<^verbatim>\<open>outctx->inctx\<close>.\<close>

definition out_write_packet ::
  "go_state \<Rightarrow> ioctx \<Rightarrow> ioctx \<Rightarrow> int \<Rightarrow> int \<times> bool \<Rightarrow> go_result \<times> ioctx" where
  "out_write_packet s inctx outctx buf_size backend =
     (let h = opaque inctx; fd = opaque outctx
      in case AVPipeWriteOutput h fd buf_size backend s of
           Panic \<Rightarrow> (Panic, outctx)
         | Ret bwritten \<Rightarrow>
             (Ret buf_size,
              if bwritten \<ge> 0
              then outctx\<lparr>written_bytes := written_bytes outctx + bwritten,
                          write_pos := write_pos outctx + bwritten\<rparr>
              else outctx))"

text \<open>\<^verbatim>\<open>out_write_packet\<close> of the command-line tool, which writes to a file descriptor
  (\<open>fd \<ge> 0\<close>); \<open>bw\<close> is the result of \<^verbatim>\<open>write(fd, buf, buf_size)\<close>.  The branch
  \<open>fd < 0\<close> copies into the memory buffer of the context.\<close>

definition xc_out_write_packet :: "int \<Rightarrow> ioctx \<Rightarrow> int \<Rightarrow> int \<Rightarrow> int \<times> ioctx" where
  "xc_out_write_packet fd outctx buf_size bw =
     (if fd < 0
      then (buf_size, outctx\<lparr>written_bytes := written_bytes outctx + buf_size,
                              write_pos := write_pos outctx + buf_size\<rparr>)
      else (bw, if bw \<ge> 0
                then outctx\<lparr>written_bytes := written_bytes outctx + bw,
                            write_pos := write_pos outctx + bw\<rparr>
                else outctx))"


section \<open>The session table (avpipe.c)\<close>

definition MAX_TX :: nat where
  "MAX_TX = 128"

text \<open>
  \<^verbatim>\<open>txctx_t\<close> with the fields the table functions touch, and \<^verbatim>\<open>txctx_entry_t\<close>.  An entry
  points to its context; each context belongs to one entry, so the entry carries it.
\<close>

record txctx =
  index :: int
  txctx_handle :: int
  decoder_cancelled :: bool
  encoder_cancelled :: bool

record txctx_entry =
  handle :: int
  entry_txctx :: txctx
  entry_done :: int

text \<open>\<^verbatim>\<open>txctx_entry_t *tx_table[MAX_TX]\<close>: the array, read only below \<open>MAX_TX\<close>;
  \<open>None\<close> is \<^verbatim>\<open>NULL\<close>.\<close>

type_synonym tx_table = "nat \<Rightarrow> txctx_entry option"

definition empty_tx_table :: tx_table where
  "empty_tx_table = (\<lambda>i. None)"

text \<open>
  The loop of \<^verbatim>\<open>tx_table_put\<close> from position \<open>i\<close>; \<open>rnd\<close> is the value \<^verbatim>\<open>rand()\<close>
  returns.  The result is the entry made (if any), the context and the table.
\<close>

function tx_table_put_loop ::
  "nat \<Rightarrow> int \<Rightarrow> txctx \<Rightarrow> tx_table \<Rightarrow> txctx_entry option \<times> txctx \<times> tx_table" where
  "tx_table_put_loop i rnd tc tbl =
     (if i < MAX_TX then
        (if tbl i = None then
           (let h0 = rnd;
                h = (if h0 < 0 then wrap32 ((- 1) * h0) else h0);
                tc' = tc\<lparr>index := int i, txctx_handle := h\<rparr>;
                txe = \<lparr>handle = h, entry_txctx = tc', entry_done = 0\<rparr>
            in (Some txe, tc', tbl(i := Some txe)))
         else tx_table_put_loop (i + 1) rnd tc tbl)
      else (None, tc, tbl))"
  by pat_completeness auto
termination
  by (relation "measure (\<lambda>(i, rnd, tc, tbl). MAX_TX - i)") auto

definition tx_table_put :: "int \<Rightarrow> txctx \<Rightarrow> tx_table \<Rightarrow> int \<times> txctx \<times> tx_table" where
  "tx_table_put rnd tc tbl =
     (case tx_table_put_loop 0 rnd (tc\<lparr>index := - 1\<rparr>) tbl of
        (Some txe, tc', tbl') \<Rightarrow> (handle txe, tc', tbl')
      | (None, tc', tbl') \<Rightarrow> (- 1, tc', tbl'))"

text \<open>\<^verbatim>\<open>tx_table_find(handle)\<close>: the first entry with the handle.\<close>

function tx_table_find_loop :: "nat \<Rightarrow> int \<Rightarrow> tx_table \<Rightarrow> txctx_entry option" where
  "tx_table_find_loop i h tbl =
     (if i < MAX_TX then
        (case tbl i of
           Some e \<Rightarrow> if handle e = h then Some e else tx_table_find_loop (i + 1) h tbl
         | None \<Rightarrow> tx_table_find_loop (i + 1) h tbl)
      else None)"
  by pat_completeness auto
termination
  by (relation "measure (\<lambda>(i, h, tbl). MAX_TX - i)") auto

definition tx_table_find :: "int \<Rightarrow> tx_table \<Rightarrow> txctx_entry option" where
  "tx_table_find h tbl = tx_table_find_loop 0 h tbl"

text \<open>\<^verbatim>\<open>tx_table_free(handle)\<close>: the first entry with the handle is released when its
  context's index is its position; otherwise the table is left as it is.\<close>

function tx_table_free_loop :: "nat \<Rightarrow> int \<Rightarrow> tx_table \<Rightarrow> tx_table" where
  "tx_table_free_loop i h tbl =
     (if i < MAX_TX then
        (case tbl i of
           Some e \<Rightarrow>
             if handle e = h
             then (if index (entry_txctx e) = int i then tbl(i := None) else tbl)
             else tx_table_free_loop (i + 1) h tbl
         | None \<Rightarrow> tx_table_free_loop (i + 1) h tbl)
      else tbl)"
  by pat_completeness auto
termination
  by (relation "measure (\<lambda>(i, h, tbl). MAX_TX - i)") auto

definition tx_table_free :: "int \<Rightarrow> tx_table \<Rightarrow> tx_table" where
  "tx_table_free h tbl = tx_table_free_loop 0 h tbl"

text \<open>
  What \<^verbatim>\<open>tx_init\<close> does at its label \<^verbatim>\<open>end_tx_init\<close>, as a list of the releases made.
\<close>

datatype tx_release = Release_input | Release_txctx | Release_in_handlers | Release_out_handlers

definition end_tx_init :: "tx_release list" where
  "end_tx_init = [Release_input, Release_txctx, Release_in_handlers, Release_out_handlers]"

text \<open>
  \<^verbatim>\<open>tx_init(params, filename, debug_frame_level)\<close>.  \<open>filename\<close> is \<open>None\<close> for a null
  pointer; \<open>open_res\<close> is the answer of the input opener, \<open>init_ok\<close> whether
  \<^verbatim>\<open>avpipe_init\<close> succeeds, \<open>rnd\<close> the value of \<^verbatim>\<open>rand()\<close>, \<open>close_err\<close> the answer of
  the input's \<^verbatim>\<open>Close\<close> should \<^verbatim>\<open>in_closer\<close> run.  The local \<^verbatim>\<open>handle\<close> is a
  \<^verbatim>\<open>uint32_t\<close>; the function returns it as \<^verbatim>\<open>int32_t\<close>.  The result is the returned
  value, the releases made, the session table and the Go globals.
\<close>

definition tx_init ::
  "string option \<Rightarrow> (backend_ref \<times> int) option \<Rightarrow> bool \<Rightarrow> int \<Rightarrow> bool
     \<Rightarrow> tx_table \<Rightarrow> go_state \<Rightarrow> int \<times> tx_release list \<times> tx_table \<times> go_state" where
  "tx_init filename open_res init_ok rnd close_err tbl s =
     (case filename of
        None \<Rightarrow> (- 1, [], tbl, s)
      | Some fname \<Rightarrow>
          if fname = [] then (- 1, [], tbl, s)
          else
            (case in_opener fname open_res calloc_ioctx s of
               (rc, inctx, s1) \<Rightarrow>
                 if rc < 0 then (- 1, end_tx_init, tbl, snd (in_closer inctx close_err s1))
                 else if \<not> init_ok
                 then (- 1, end_tx_init, tbl, snd (in_closer inctx close_err s1))
                 else
                   (case tx_table_put rnd \<lparr>index = 0, txctx_handle = 0,
                                            decoder_cancelled = False,
                                            encoder_cancelled = False\<rparr> tbl of
                      (r, tc, tbl') \<Rightarrow>
                        (let handle_u32 = to_uint32 r
                         in if handle_u32 < 0
                            then (- 1, end_tx_init, tbl', snd (in_closer inctx close_err s1))
                            else (wrap32 handle_u32, [], tbl', s1)))))"

text \<open>\<^verbatim>\<open>tx_run(handle)\<close>: \<open>tx_ok\<close> is whether \<^verbatim>\<open>avpipe_tx\<close> succeeds.  An unknown handle
  is refused.\<close>

definition tx_run :: "int \<Rightarrow> bool \<Rightarrow> tx_table \<Rightarrow> int \<times> tx_table" where
  "tx_run h tx_ok tbl =
     (case tx_table_find h tbl of
        None \<Rightarrow> (- 1, tbl)
      | Some txe \<Rightarrow> (if tx_ok then 0 else - 1, tx_table_free h tbl))"


text \<open>The handle \<^verbatim>\<open>tx_table_put\<close> gives an entry, and the entry it stores at a position:
  abbreviations of the body of its loop.\<close>

definition rand_handle :: "int \<Rightarrow> int" where
  "rand_handle rnd = (if rnd < 0 then wrap32 (- rnd) else rnd)"

definition new_entry :: "nat \<Rightarrow> int \<Rightarrow> txctx \<Rightarrow> txctx_entry" where
  "new_entry k rnd tc =
     \<lparr>handle = rand_handle rnd,
      entry_txctx = tc\<lparr>index := int k, txctx_handle := rand_handle rnd\<rparr>,
      entry_done = 0\<rparr>"

text \<open>Every live entry sits at the position its context records, as \<^verbatim>\<open>tx_table_put\<close>
  leaves it.\<close>

definition tx_wf :: "tx_table \<Rightarrow> bool" where
  "tx_wf tbl = (\<forall>i<MAX_TX. \<forall>e. tbl i = Some e \<longrightarrow> index (entry_txctx e) = int i)"

text \<open>At most one live entry carries the handle \<open>h\<close>.\<close>

definition tx_unique :: "int \<Rightarrow> tx_table \<Rightarrow> bool" where
  "tx_unique h tbl =
     (\<forall>i<MAX_TX. \<forall>j<MAX_TX. \<forall>e e'.
        tbl i = Some e \<and> tbl j = Some e' \<and> handle e = h \<and> handle e' = h \<longrightarrow> i = j)"

text \<open>Register and unregister operations on the session table, and a sequence of them.\<close>

datatype tx_op = TxPut int txctx | TxFree int

fun tx_apply :: "tx_op \<Rightarrow> tx_table \<Rightarrow> tx_table" where
  "tx_apply (TxPut rnd tc) tbl = snd (snd (tx_table_put rnd tc tbl))"
| "tx_apply (TxFree h) tbl = tx_table_free h tbl"

fun tx_apply_all :: "tx_op list \<Rightarrow> tx_table \<Rightarrow> tx_table" where
  "tx_apply_all [] tbl = tbl"
| "tx_apply_all (x # xs) tbl = tx_apply_all xs (tx_apply x tbl)"

text \<open>The session handle a dispatcher call is made with; \<^verbatim>\<open>NewIOHandler\<close> takes none.\<close>

fun call_handle :: "go_call \<Rightarrow> int option" where
  "call_handle (CallNew url r) = None"
| "call_handle (CallRead fd n b) = Some fd"
| "call_handle (CallSeek fd b) = Some fd"
| "call_handle (CallClose fd e) = Some fd"
| "call_handle (CallStat fd e) = Some fd"
| "call_handle (CallOpenOutput h si sg ty r) = Some h"
| "call_handle (CallWriteOutput h fd n b) = Some h"
| "call_handle (CallSeekOutput h fd b) = Some h"
| "call_handle (CallCloseOutput h fd e) = Some h"
| "call_handle (CallStatOutput h fd e) = Some h"


section \<open>The formula-based dispatcher (avpipe_handler.go)\<close>

text \<open>The \<^verbatim>\<open>switch stream_type\<close> of \<^verbatim>\<open>AVPipeOpenOutput\<close> in \<^verbatim>\<open>avpipe_handler.go\<close>, which
  knows five kinds.\<close>

fun handler_out_type_of :: "avp_stream_type option \<Rightarrow> AVType option" where
  "handler_out_type_of (Some avpipe_video_init_stream) = Some DASHVideoInit"
| "handler_out_type_of (Some avpipe_audio_init_stream) = Some DASHAudioInit"
| "handler_out_type_of (Some avpipe_manifest) = Some DASHManifest"
| "handler_out_type_of (Some avpipe_video_segment) = Some DASHVideoSegment"
| "handler_out_type_of (Some avpipe_audio_segment) = Some DASHAudioSegment"
| "handler_out_type_of _ = None"

text \<open>\<^verbatim>\<open>fd := int(seg_index-1)*2 + int(stream_index)\<close>: the subtraction is made on
  \<^verbatim>\<open>C.int\<close>, the rest on Go's 64-bit \<^verbatim>\<open>int\<close>.\<close>

definition slot_id :: "int \<Rightarrow> int \<Rightarrow> int" where
  "slot_id stream_index seg_index = wrap32 (seg_index - 1) * 2 + stream_index"

text \<open>
  \<^verbatim>\<open>AVPipeOpenOutput\<close> of \<^verbatim>\<open>avpipe_handler.go\<close>.  The handler is looked up without a nil
  check, so storing into the table of an absent handler panics, as does the call of a
  nil opener.  The slot id goes back as a \<^verbatim>\<open>C.int\<close>.
\<close>

definition handler_AVPipeOpenOutput ::
  "int \<Rightarrow> int \<Rightarrow> int \<Rightarrow> avp_stream_type option \<Rightarrow> backend_ref option \<Rightarrow> go_state
     \<Rightarrow> go_result \<times> go_state" where
  "handler_AVPipeOpenOutput handler stream_index seg_index stream_type open_res s =
     (case handler_out_type_of stream_type of
        None \<Rightarrow> (Ret (- 1), s)
      | Some out_type \<Rightarrow>
          if gOutputOpener s = None then (Panic, s)
          else (case open_res of
                  None \<Rightarrow> (Ret (- 1), s)
                | Some etxOut \<Rightarrow>
                    (let fd = slot_id stream_index seg_index
                     in case handler_of s handler of
                          None \<Rightarrow> (Panic, s)
                        | Some h \<Rightarrow>
                            (Ret (wrap32 fd),
                             s\<lparr>gHandlers :=
                                 (gHandlers s)(handler \<mapsto> Some (putOutTable h fd etxOut))\<rparr>))))"


section \<open>The UDP input of the command-line tool (part of the exc source)\<close>

type_synonym byte = nat

text \<open>\<^verbatim>\<open>udp_packet_t\<close>: the receive buffer and the length \<^verbatim>\<open>recvfrom\<close> returned.\<close>

record udp_packet =
  buf :: "byte list"
  len :: int















section \<open>The live capture readers\<close>

text \<open>
  The Go reader \<^verbatim>\<open>readUdp\<close> of \<^verbatim>\<open>ts_recorder.go\<close>.  One turn of its loop sets the read
  deadline (five seconds ahead), reads a datagram and writes it to the writer.  What
  the connection and the writer answer in a turn is an event: the deadline cannot be
  set; the read fails with \<open>n\<close> bytes, by timeout or otherwise; the read gives \<open>n\<close>
  bytes and the write returns \<open>(bw, err)\<close>.
\<close>

datatype conn_event =
    Deadline_fails
  | Read_fails nat bool
  | Read_ok nat "int \<times> bool"

text \<open>The Go errors \<^verbatim>\<open>readUdp\<close> can return; \<^verbatim>\<open>avpipe.EAV_IO_TIMEOUT\<close> is an error value of
  package \<^verbatim>\<open>avpipe\<close>.\<close>

datatype go_error = EAV_IO_TIMEOUT | Deadline_error | Net_error | Write_error

text \<open>The reader has returned (its deferred calls have then closed the writer and the
  socket), with an error or with nil; or it is still in its loop, waiting for the next
  event, with the bytes read so far.\<close>

datatype readUdp_result = Returned "go_error option" | Still_reading int

fun readUdp_loop :: "conn_event list \<Rightarrow> int \<Rightarrow> readUdp_result" where
  "readUdp_loop [] bytesRead = Still_reading bytesRead"
| "readUdp_loop (Deadline_fails # es) bytesRead = Returned (Some Deadline_error)"
| "readUdp_loop (Read_fails n is_timeout # es) bytesRead =
     (let bytesRead' = bytesRead + int n
      in if is_timeout
         then (if bytesRead' = 0 then readUdp_loop es bytesRead'
               else Returned (Some EAV_IO_TIMEOUT))
         else Returned (Some Net_error))"
| "readUdp_loop (Read_ok n (bw, werr) # es) bytesRead =
     (let bytesRead' = bytesRead + int n
      in if werr \<or> bw \<noteq> int n
         then Returned (if werr then Some Write_error else None)
         else readUdp_loop es bytesRead')"

definition readUdp :: "conn_event list \<Rightarrow> readUdp_result" where
  "readUdp es = readUdp_loop es 0"

text \<open>The goroutine of \<^verbatim>\<open>serveOneConnection\<close>: what it sends to \<^verbatim>\<open>tsr.ErrChannel\<close>.\<close>

definition serveOneConnection_errors :: "conn_event list \<Rightarrow> go_error list" where
  "serveOneConnection_errors es =
     (case readUdp es of Returned (Some err) \<Rightarrow> [err] | _ \<Rightarrow> [])"

text \<open>
  The C reader thread \<^verbatim>\<open>udp_thread_func\<close> of the command-line tool.  An event is the
  value of \<^verbatim>\<open>readable_timeout(fd, UDP_PIPE_TIMEOUT)\<close> (positive when a datagram is
  there, 0 after the timeout, negative for an error) with the buffer and the length
  \<^verbatim>\<open>recvfrom\<close> then gives.  The thread has exited, or is still in its loop; either way
  with the packets it has sent to the channel.
\<close>

datatype thread_result = Thread_exited "udp_packet list" | Thread_reading "udp_packet list"

fun udp_thread_func :: "(int \<times> byte list \<times> int) list \<Rightarrow> udp_packet list \<Rightarrow> thread_result" where
  "udp_thread_func [] sent = Thread_reading sent"
| "udp_thread_func ((readable, data, n) # es) sent =
     (if readable \<le> 0 then Thread_exited sent
      else udp_thread_func es (sent @ [\<lparr>buf = data, len = n\<rparr>]))"


section \<open>Output file names of the command-line tool\<close>

text \<open>The conversions \<^verbatim>\<open>%d\<close> and \<^verbatim>\<open>%05d\<close> of \<^verbatim>\<open>sprintf\<close> for an \<^verbatim>\<open>int\<close>.\<close>

definition digit_char :: "nat \<Rightarrow> char" where
  "digit_char d = ''0123456789'' ! d"

function dec_digits :: "nat \<Rightarrow> string" where
  "dec_digits n = (if n < 10 then [digit_char n]
                   else dec_digits (n div 10) @ [digit_char (n mod 10)])"
  by pat_completeness auto
termination
  by (relation "measure (\<lambda>n. n)") auto

definition printf_d :: "int \<Rightarrow> string" where
  "printf_d i = (if i < 0 then CHR ''-'' # dec_digits (nat (- i)) else dec_digits (nat i))"

definition printf_05d :: "int \<Rightarrow> string" where
  "printf_05d i =
     (let sign = (if i < 0 then ''-'' else '''');
          ds = dec_digits (nat \<bar>i\<bar>)
      in sign @ replicate (5 - length sign - length ds) CHR ''0'' @ ds)"

text \<open>
  The \<^verbatim>\<open>switch (outctx->type)\<close> of \<^verbatim>\<open>out_opener\<close>: the path written into \<^verbatim>\<open>segname\<close>, or
  \<open>None\<close> in the \<^verbatim>\<open>default\<close> branch.  \<open>gfd\<close> is the number of the opened input.
\<close>

definition out_opener_segname ::
  "avp_stream_type option \<Rightarrow> string \<Rightarrow> int \<Rightarrow> int \<Rightarrow> int \<Rightarrow> string option" where
  "out_opener_segname ty url gfd stream_index seg_index =
     (let dir = ''./O/O'' @ printf_d gfd
      in case ty of
           None \<Rightarrow> None
         | Some avpipe_manifest \<Rightarrow> Some (dir @ ''/'' @ ''dash.mpd'')
         | Some avpipe_master_m3u \<Rightarrow> Some (dir @ ''/'' @ ''master.m3u8'')
         | Some avpipe_video_init_stream \<Rightarrow> Some (dir @ ''/'' @ url)
         | Some avpipe_audio_init_stream \<Rightarrow> Some (dir @ ''/'' @ url)
         | Some avpipe_video_m3u \<Rightarrow> Some (dir @ ''/'' @ url)
         | Some avpipe_audio_m3u \<Rightarrow> Some (dir @ ''/'' @ url)
         | Some avpipe_aes_128_key \<Rightarrow> Some (dir @ ''/'' @ url)
         | Some avpipe_mp4_stream \<Rightarrow> Some (dir @ ''/'' @ url)
         | Some avpipe_fmp4_stream \<Rightarrow> Some (dir @ ''/'' @ url)
         | Some avpipe_video_segment \<Rightarrow>
             Some (''./'' @ dir @ ''/'' @ ''chunk-stream'' @ printf_d stream_index @ ''-''
                   @ printf_05d seg_index @ ''.m4s'')
         | Some avpipe_audio_segment \<Rightarrow>
             Some (''./'' @ dir @ ''/'' @ ''chunk-stream'' @ printf_d stream_index @ ''-''
                   @ printf_05d seg_index @ ''.m4s'')
         | Some avpipe_mp4_segment \<Rightarrow>
             Some (''./'' @ dir @ ''/'' @ ''segment'' @ printf_d stream_index @ ''-''
                   @ printf_05d seg_index @ ''.mp4'')
         | Some avpipe_fmp4_segment \<Rightarrow>
             Some (''./'' @ dir @ ''/'' @ ''fsegment'' @ printf_d stream_index @ ''-''
                   @ printf_05d seg_index @ ''.mp4''))"

text \<open>
  \<^verbatim>\<open>out_opener(url, outctx)\<close> of the tool.  \<open>open_fd\<close> is the result of
  \<^verbatim>\<open>open(segname, O_RDWR | O_CREAT | O_TRUNC, 0644)\<close>.  \<^verbatim>\<open>segname\<close> has room for 128
  bytes with the final zero; a longer path overruns it.  The result is the status and
  the path given to \<^verbatim>\<open>open\<close>, if it was called.
\<close>

datatype sprintf_fault = Segname_overrun

definition xc_out_opener ::
  "avp_stream_type option \<Rightarrow> string \<Rightarrow> int \<Rightarrow> int \<Rightarrow> int \<Rightarrow> int
     \<Rightarrow> sprintf_fault + (int \<times> string option)" where
  "xc_out_opener ty url gfd stream_index seg_index open_fd =
     (case out_opener_segname ty url gfd stream_index seg_index of
        None \<Rightarrow> Inr (- 1, None)
      | Some segname \<Rightarrow>
          if length segname \<ge> 128 then Inl Segname_overrun
          else if open_fd < 0 then Inr (- 1, Some segname)
          else Inr (0, Some segname))"

text \<open>
  The naming convention in the words of the specification: the manifest is
  \<open>dash.mpd\<close>, the master playlist \<open>master.m3u8\<close>, init, key and m3u files (and whole
  mp4 streams) carry the requested name, and a media segment is
  \<open><kind-prefix><streamIndex>-<segIndex:05d>.<ext>\<close>.
\<close>

definition spec_segment_name :: "string \<Rightarrow> int \<Rightarrow> int \<Rightarrow> string \<Rightarrow> string" where
  "spec_segment_name kind_prefix stream_index seg_index ext =
     kind_prefix @ printf_d stream_index @ ''-'' @ printf_05d seg_index @ ''.'' @ ext"

fun spec_file_name :: "avp_stream_type \<Rightarrow> string \<Rightarrow> int \<Rightarrow> int \<Rightarrow> string" where
  "spec_file_name avpipe_manifest url si sg = ''dash.mpd''"
| "spec_file_name avpipe_master_m3u url si sg = ''master.m3u8''"
| "spec_file_name avpipe_video_segment url si sg = spec_segment_name ''chunk-stream'' si sg ''m4s''"
| "spec_file_name avpipe_audio_segment url si sg = spec_segment_name ''chunk-stream'' si sg ''m4s''"
| "spec_file_name avpipe_mp4_segment url si sg = spec_segment_name ''segment'' si sg ''mp4''"
| "spec_file_name avpipe_fmp4_segment url si sg = spec_segment_name ''fsegment'' si sg ''mp4''"
| "spec_file_name _ url si sg = url"

text \<open>The kinds that are binary media segments, and the directory part of a path:
  the directory of the session, which the segment branches write with a leading
  \<open>./\<close>.\<close>

fun is_segment :: "avp_stream_type \<Rightarrow> bool" where
  "is_segment avpipe_video_segment = True"
| "is_segment avpipe_audio_segment = True"
| "is_segment avpipe_mp4_segment = True"
| "is_segment avpipe_fmp4_segment = True"
| "is_segment _ = False"

definition out_dir :: "avp_stream_type \<Rightarrow> int \<Rightarrow> string" where
  "out_dir ty gfd = (if is_segment ty then ''./'' else '''') @ ''./O/O'' @ printf_d gfd"

text \<open>Reading a string of decimal digits back as a number.\<close>

definition digit_value :: "char \<Rightarrow> nat" where
  "digit_value ch = of_char ch - 48"

definition read_decimal :: "string \<Rightarrow> nat" where
  "read_decimal s = foldl (\<lambda>acc ch. 10 * acc + digit_value ch) 0 s"


section \<open>Properties of the Go dispatcher\<close>

lemma wrap64_id: "- 9223372036854775808 \<le> x \<Longrightarrow> x < 9223372036854775808 \<Longrightarrow> wrap64 x = x"
  by (simp add: wrap64_def)


lemma NewIOHandler_counter:
  assumes "0 \<le> gHandleNum s" "gHandleNum s < 9223372036854775807"
    and "NewIOHandler url r s = (h, sze, s')"
  shows "gHandleNum s \<le> gHandleNum s' \<and> gHandleNum s' \<le> gHandleNum s + 1
         \<and> (h \<noteq> - 1 \<longrightarrow> h = gHandleNum s + 1 \<and> gHandleNum s' = h)"
proof -
  have w: "wrap64 (gHandleNum s + 1) = gHandleNum s + 1"
    using assms(1,2) by (simp add: wrap64_id)
  show ?thesis
    using assms(3) unfolding NewIOHandler_def Let_def w
    by (auto split: option.splits if_splits)
qed

lemma AVPipeCloseInput_counter:
  "gHandleNum (snd (AVPipeCloseInput fd e s)) = gHandleNum s"
  by (simp add: AVPipeCloseInput_def Let_def split: option.splits)

lemma AVPipeOpenOutput_counter:
  "gHandleNum (snd (AVPipeOpenOutput h si sg ty r s)) = gHandleNum s"
  by (simp add: AVPipeOpenOutput_def Let_def split: option.splits)

lemma go_step_counter:
  assumes "0 \<le> gHandleNum s" "gHandleNum s < 9223372036854775807"
  shows "gHandleNum s \<le> gHandleNum (snd (go_step c s)) \<and> gHandleNum (snd (go_step c s)) \<le> gHandleNum s + 1"
proof (cases c)
  case (CallNew url r)
  obtain h sze s' where n: "NewIOHandler url r s = (h, sze, s')" by (cases "NewIOHandler url r s")
  show ?thesis using NewIOHandler_counter[OF assms n] n CallNew by simp
qed (simp_all add: AVPipeCloseInput_counter AVPipeOpenOutput_counter)

lemma issued_handles_other:
  "\<not> (\<exists>url x h. c = CallNew url x \<and> r = Ret h \<and> h \<noteq> - 1) \<Longrightarrow>
   issued_handles ((c, r) # tr) = issued_handles tr"
  by (cases c; cases r) simp_all

lemma go_run_Cons:
  "go_run (c # cs) s =
     ((c, fst (go_step c s)) # fst (go_run cs (snd (go_step c s))),
      snd (go_run cs (snd (go_step c s))))"
  by (simp add: case_prod_unfold)

lemma issued_handles_run:
  "0 \<le> gHandleNum s \<Longrightarrow> gHandleNum s + int (length cs) < 9223372036854775808 \<Longrightarrow>
   sorted_wrt (<) (issued_handles (fst (go_run cs s)))
   \<and> (\<forall>h \<in> set (issued_handles (fst (go_run cs s))). gHandleNum s < h)
   \<and> gHandleNum s \<le> gHandleNum (snd (go_run cs s))"
proof (induction cs arbitrary: s)
  case Nil
  then show ?case by simp
next
  case (Cons c cs)
  define r where "r = fst (go_step c s)"
  define s' where "s' = snd (go_step c s)"
  define tr where "tr = fst (go_run cs s')"
  define s'' where "s'' = snd (go_run cs s')"
  have lt: "gHandleNum s < 9223372036854775807" using Cons.prems by simp
  have cnt: "gHandleNum s \<le> gHandleNum s'" "gHandleNum s' \<le> gHandleNum s + 1"
    using go_step_counter[OF Cons.prems(1) lt, of c] by (simp_all add: s'_def)
  have b: "gHandleNum s' + int (length cs) < 9223372036854775808"
    using Cons.prems(2) cnt(2) by simp
  have nn: "0 \<le> gHandleNum s'" using Cons.prems(1) cnt(1) by simp
  have ih: "sorted_wrt (<) (issued_handles tr)"
       "\<forall>h \<in> set (issued_handles tr). gHandleNum s' < h"
       "gHandleNum s' \<le> gHandleNum s''"
    using Cons.IH[OF nn b] by (simp_all add: tr_def s''_def)
  have run: "fst (go_run (c # cs) s) = (c, r) # tr" "snd (go_run (c # cs) s) = s''"
    by (simp_all only: go_run_Cons r_def s'_def tr_def s''_def fst_conv snd_conv)
  have up: "\<forall>x \<in> set (issued_handles tr). gHandleNum s < x"
    using ih(2) cnt(1) by fastforce
  have fin: "gHandleNum s \<le> gHandleNum s''" using ih(3) cnt(1) by simp
  show ?case
  proof (cases "\<exists>url x h. c = CallNew url x \<and> r = Ret h \<and> h \<noteq> - 1")
    case True
    then obtain url x h where c: "c = CallNew url x" "r = Ret h" "h \<noteq> - 1" by blast
    obtain h0 sze s0 where n: "NewIOHandler url x s = (h0, sze, s0)"
      by (cases "NewIOHandler url x s")
    have "h0 = h" "s0 = s'" using n c r_def s'_def by simp_all
    then have h: "h = gHandleNum s + 1" "gHandleNum s' = h"
      using NewIOHandler_counter[OF Cons.prems(1) lt n] c(3) by simp_all
    have e: "issued_handles ((c, r) # tr) = h # issued_handles tr" using c by simp
    have "\<forall>x \<in> set (issued_handles tr). h < x" using ih(2) h(2) by simp
    then show ?thesis unfolding run e using h(1) ih(1) up fin by simp
  next
    case False
    show ?thesis unfolding run issued_handles_other[OF False] using ih(1) up fin by simp
  qed
qed

text \<open>
  Claim C10.  In the Go dispatcher the session-handle counter only moves up.  In every
  run of dispatcher calls that starts with a non-negative counter and stays inside the
  64-bit range, the handles returned by successful \<^verbatim>\<open>NewIOHandler\<close> calls are strictly
  increasing in the order of the calls, each is greater than the counter at the start
  (hence positive), no handle is returned twice, and the counter never drops.  Closing an
  input leaves the counter as it is and only sets the table entry of the handle to nil.
\<close>

theorem session_handle_counter_strictly_increasing:
  assumes "0 \<le> gHandleNum s"
    and "gHandleNum s + int (length cs) < 9223372036854775808"
  shows "sorted_wrt (<) (issued_handles (fst (go_run cs s)))
         \<and> distinct (issued_handles (fst (go_run cs s)))
         \<and> (\<forall>h \<in> set (issued_handles (fst (go_run cs s))). 0 < h \<and> gHandleNum s < h)
         \<and> gHandleNum s \<le> gHandleNum (snd (go_run cs s))
         \<and> (\<forall>fd e. gHandleNum (snd (AVPipeCloseInput fd e s)) = gHandleNum s
                  \<and> (handler_of s fd \<noteq> None \<longrightarrow>
                       gHandlers (snd (AVPipeCloseInput fd e s)) fd = Some None))"
proof -
  have r: "sorted_wrt (<) (issued_handles (fst (go_run cs s)))"
    "\<forall>h \<in> set (issued_handles (fst (go_run cs s))). gHandleNum s < h"
    "gHandleNum s \<le> gHandleNum (snd (go_run cs s))"
    using issued_handles_run[OF assms] by simp_all
  have d: "distinct (issued_handles (fst (go_run cs s)))"
    using r(1) strict_sorted_iff by blast
  have p: "\<forall>h \<in> set (issued_handles (fst (go_run cs s))). 0 < h \<and> gHandleNum s < h"
    using r(2) assms(1) by fastforce
  have c: "\<forall>fd e. gHandleNum (snd (AVPipeCloseInput fd e s)) = gHandleNum s
                  \<and> (handler_of s fd \<noteq> None \<longrightarrow>
                       gHandlers (snd (AVPipeCloseInput fd e s)) fd = Some None)"
    by (auto simp: AVPipeCloseInput_def Let_def split: option.splits)
  show ?thesis using r(1,3) d p c by blast
qed

theorem session_handle_counter_witness:
  "issued_handles (fst (go_run
      [CallNew ''a.mp4'' (Some (7, 100)), CallClose 1 False,
       CallNew ''b.mp4'' (Some (8, 0)), CallNew ''c.mp4'' None,
       CallNew ''d.mp4'' (Some (9, 5))]
      (InitIOHandler (Some 1) (Some 2) go_init))) = [1, 2, 4]
   \<and> sorted_wrt (<) (issued_handles (fst (go_run
      [CallNew ''a.mp4'' (Some (7, 100)), CallClose 1 False,
       CallNew ''b.mp4'' (Some (8, 0)), CallNew ''c.mp4'' None,
       CallNew ''d.mp4'' (Some (9, 5))]
      (InitIOHandler (Some 1) (Some 2) go_init))))"
proof -
  have a: "0 \<le> gHandleNum (InitIOHandler (Some 1) (Some 2) go_init)"
    by (simp add: InitIOHandler_def go_init_def)
  have b: "gHandleNum (InitIOHandler (Some 1) (Some 2) go_init)
           + int (length [CallNew ''a.mp4'' (Some (7, 100)), CallClose 1 False,
                          CallNew ''b.mp4'' (Some (8, 0)), CallNew ''c.mp4'' None,
                          CallNew ''d.mp4'' (Some (9, 5))]) < 9223372036854775808"
    by (simp add: InitIOHandler_def go_init_def)
  have e: "issued_handles (fst (go_run
      [CallNew ''a.mp4'' (Some (7, 100)), CallClose 1 False,
       CallNew ''b.mp4'' (Some (8, 0)), CallNew ''c.mp4'' None,
       CallNew ''d.mp4'' (Some (9, 5))]
      (InitIOHandler (Some 1) (Some 2) go_init))) = [1, 2, 4]"
    by (simp add: InitIOHandler_def go_init_def NewIOHandler_def AVPipeCloseInput_def
                  handler_of_def wrap64_def Let_def)
  show ?thesis using session_handle_counter_strictly_increasing[OF a b] e by simp
qed

section \<open>Reads and writes through the dispatcher\<close>

lemma wrap32_id: "- 2147483648 \<le> x \<Longrightarrow> x < 2147483648 \<Longrightarrow> wrap32 x = x"
  by (simp add: wrap32_def)

text \<open>
  Claim C1.  A write through the dispatcher should return the length of the buffer
  exactly when the backend accepted all of it, and an error status otherwise.  The code
  does not: with one open session (handle 1) and one open output slot (slot 1), a
  backend \<^verbatim>\<open>Write\<close> that fails makes \<^verbatim>\<open>AVPipeWriteOutput\<close> return -1, yet
  \<^verbatim>\<open>out_write_packet\<close> of \<^verbatim>\<open>avpipe.c\<close> returns the buffer size 4096 to the engine, as
  for a full write.  The writer of the command-line tool returns the result of the
  write (-1) in the same situation.
\<close>

theorem out_write_packet_hides_backend_error:
  "AVPipeWriteOutput 1 1 4096 (0, True)
     (snd (go_run [CallNew ''in.mp4'' (Some (7, 100)),
                   CallOpenOutput 1 0 1 (Some avpipe_video_segment) (Some 9)]
                  (InitIOHandler (Some 1) (Some 2) go_init))) = Ret (- 1)
   \<and> fst (out_write_packet
        (snd (go_run [CallNew ''in.mp4'' (Some (7, 100)),
                      CallOpenOutput 1 0 1 (Some avpipe_video_segment) (Some 9)]
                     (InitIOHandler (Some 1) (Some 2) go_init)))
        (calloc_ioctx\<lparr>opaque := 1\<rparr>) (calloc_ioctx\<lparr>opaque := 1\<rparr>) 4096 (0, True)) = Ret 4096
   \<and> fst (xc_out_write_packet 3 calloc_ioctx 4096 (- 1)) = - 1"
  by (simp add: InitIOHandler_def go_init_def NewIOHandler_def AVPipeOpenOutput_def
                AVPipeWriteOutput_def out_write_packet_def xc_out_write_packet_def
                handler_of_def getOutTable_def putOutTable_def wrap64_def Let_def calloc_ioctx_def)

text \<open>
  Claim C2, as stated, fails: at end-of-stream the backend returns 0 bytes and no error,
  \<^verbatim>\<open>AVPipeReadInput\<close> returns 0, and \<^verbatim>\<open>in_read_packet\<close> hands -1 to the engine.
\<close>

theorem in_read_packet_eof_counterexample:
  "AVPipeReadInput 1 4096 (0, False)
     (snd (go_run [CallNew ''in.mp4'' (Some (7, 100))]
                  (InitIOHandler (Some 1) (Some 2) go_init))) = Ret 0
   \<and> fst (in_read_packet 1048576
        (snd (go_run [CallNew ''in.mp4'' (Some (7, 100))]
                     (InitIOHandler (Some 1) (Some 2) go_init)))
        (calloc_ioctx\<lparr>opaque := 1\<rparr>) 4096 (0, False)) = Ret (- 1)"
  by (simp add: InitIOHandler_def go_init_def NewIOHandler_def AVPipeReadInput_def
                in_read_packet_def handler_of_def wrap64_def wrap32_def Let_def calloc_ioctx_def)

text \<open>
  Claim C2, amended.  The count \<^verbatim>\<open>in_read_packet\<close> returns to the engine is never 0.
  It is the byte count when the session is registered and the backend delivered a
  positive number of bytes without an error, and -1 in every other case.  End-of-stream
  (0 bytes, no error) is 0 at the Go boundary \<^verbatim>\<open>AVPipeReadInput\<close> and reaches the
  engine as -1, as a backend error does.
\<close>

theorem in_read_packet_never_zero:
  "fst (in_read_packet report s c buf_size (n, err)) \<noteq> Ret 0
   \<and> (\<forall>r. fst (in_read_packet report s c buf_size (n, err)) = Ret r \<longrightarrow>
          (if handler_of s (opaque c) \<noteq> None \<and> \<not> err \<and> 0 < wrap32 n
           then r = wrap32 n else r = - 1))
   \<and> (handler_of s (opaque c) \<noteq> None \<and> 0 \<le> buf_size \<longrightarrow>
          AVPipeReadInput (opaque c) buf_size (0, False) s = Ret 0
          \<and> fst (in_read_packet report s c buf_size (0, False)) = Ret (- 1))"
  by (auto simp: in_read_packet_def AVPipeReadInput_def Let_def wrap32_def
           split: option.splits go_result.splits if_splits)

theorem in_read_packet_never_zero_witness:
  "handler_of (snd (go_run [CallNew ''in.mp4'' (Some (7, 100))]
                  (InitIOHandler (Some 1) (Some 2) go_init))) (opaque (calloc_ioctx\<lparr>opaque := 1\<rparr>)) \<noteq> None
   \<and> (0::int) \<le> 4096
   \<and> fst (in_read_packet 1048576
        (snd (go_run [CallNew ''in.mp4'' (Some (7, 100))]
                     (InitIOHandler (Some 1) (Some 2) go_init)))
        (calloc_ioctx\<lparr>opaque := 1\<rparr>) 4096 (188, False)) = Ret 188
   \<and> fst (in_read_packet 1048576
        (snd (go_run [CallNew ''in.mp4'' (Some (7, 100))]
                     (InitIOHandler (Some 1) (Some 2) go_init)))
        (calloc_ioctx\<lparr>opaque := 1\<rparr>) 4096 (0, False)) = Ret (- 1)"
proof -
  let ?s = "snd (go_run [CallNew ''in.mp4'' (Some (7, 100))]
                  (InitIOHandler (Some 1) (Some 2) go_init))"
  let ?c = "calloc_ioctx\<lparr>opaque := 1\<rparr>"
  have h: "handler_of ?s (opaque ?c) \<noteq> None"
    by (simp add: InitIOHandler_def go_init_def NewIOHandler_def handler_of_def wrap64_def
                  Let_def calloc_ioctx_def)
  have w: "wrap32 188 = 188" by (simp add: wrap32_def)
  have p: "fst (in_read_packet 1048576 ?s ?c 4096 (188, False)) = Ret 188"
    by (simp add: InitIOHandler_def go_init_def NewIOHandler_def AVPipeReadInput_def
                in_read_packet_def handler_of_def wrap64_def wrap32_def Let_def calloc_ioctx_def)
  show ?thesis
    using in_read_packet_never_zero[of 1048576 ?s ?c 4096 188 False]
          in_read_packet_never_zero[of 1048576 ?s ?c 4096 0 False] h w p
    by simp
qed

section \<open>Properties of the session table loops\<close>


declare tx_table_put_loop.simps [simp del]
declare tx_table_find_loop.simps [simp del]
declare tx_table_free_loop.simps [simp del]

lemma put_loop_occupied:
  "i < MAX_TX \<Longrightarrow> tbl i = Some e \<Longrightarrow>
   tx_table_put_loop i rnd tc tbl = tx_table_put_loop (i + 1) rnd tc tbl"
  by (subst tx_table_put_loop.simps) simp

lemma put_loop_free:
  "i < MAX_TX \<Longrightarrow> tbl i = None \<Longrightarrow>
   tx_table_put_loop i rnd tc tbl =
     (Some (new_entry i rnd tc), tc\<lparr>index := int i, txctx_handle := rand_handle rnd\<rparr>,
      tbl(i := Some (new_entry i rnd tc)))"
  by (subst tx_table_put_loop.simps) (simp add: Let_def new_entry_def rand_handle_def)

lemma put_loop_end:
  "\<not> i < MAX_TX \<Longrightarrow> tx_table_put_loop i rnd tc tbl = (None, tc, tbl)"
  by (subst tx_table_put_loop.simps) simp

lemma tx_table_put_loop_full:
  "(\<forall>j. i \<le> j \<and> j < MAX_TX \<longrightarrow> tbl j \<noteq> None) \<Longrightarrow>
   tx_table_put_loop i rnd tc tbl = (None, tc, tbl)"
proof (induction "MAX_TX - i" arbitrary: i)
  case 0
  then show ?case by (simp add: put_loop_end)
next
  case (Suc n)
  then have lt: "i < MAX_TX" by simp
  then obtain e where e: "tbl i = Some e" using Suc.prems by auto
  have n: "n = MAX_TX - (i + 1)" using Suc.hyps(2) by simp
  have "tx_table_put_loop (i + 1) rnd tc tbl = (None, tc, tbl)"
    using Suc.hyps(1)[OF n] Suc.prems by simp
  then show ?case using put_loop_occupied[where i = i and tbl = tbl, OF lt e] by simp
qed

lemma tx_table_put_loop_first_free:
  "i \<le> k \<Longrightarrow> k < MAX_TX \<Longrightarrow> tbl k = None \<Longrightarrow> (\<forall>j. i \<le> j \<and> j < k \<longrightarrow> tbl j \<noteq> None) \<Longrightarrow>
   tx_table_put_loop i rnd tc tbl =
     (Some (new_entry k rnd tc), tc\<lparr>index := int k, txctx_handle := rand_handle rnd\<rparr>,
      tbl(k := Some (new_entry k rnd tc)))"
proof (induction "k - i" arbitrary: i)
  case 0
  then have "i = k" by simp
  then show ?case
    using put_loop_free[where i = k and tbl = tbl and rnd = rnd and tc = tc] "0.prems"(2,3)
    by blast
next
  case (Suc n)
  then have lt: "i < k" by simp
  then have im: "i < MAX_TX" using Suc.prems(2) by simp
  obtain e where e: "tbl i = Some e" using Suc.prems(4) lt by auto
  have "tx_table_put_loop (i + 1) rnd tc tbl =
     (Some (new_entry k rnd tc), tc\<lparr>index := int k, txctx_handle := rand_handle rnd\<rparr>,
      tbl(k := Some (new_entry k rnd tc)))"
    using Suc.hyps(1)[of "i + 1"] Suc.hyps(2) Suc.prems(2,3,4) lt by simp
  then show ?case using put_loop_occupied[where i = i and tbl = tbl, OF im e] by simp
qed


lemma find_loop_end: "\<not> i < MAX_TX \<Longrightarrow> tx_table_find_loop i h tbl = None"
  by (subst tx_table_find_loop.simps) simp

lemma find_loop_hit:
  "i < MAX_TX \<Longrightarrow> tbl i = Some e \<Longrightarrow> handle e = h \<Longrightarrow> tx_table_find_loop i h tbl = Some e"
  by (subst tx_table_find_loop.simps) simp

lemma find_loop_miss:
  "i < MAX_TX \<Longrightarrow> (\<forall>e. tbl i = Some e \<longrightarrow> handle e \<noteq> h) \<Longrightarrow>
   tx_table_find_loop i h tbl = tx_table_find_loop (i + 1) h tbl"
  by (subst tx_table_find_loop.simps) (auto split: option.splits)

lemma find_loop_None_iff:
  "tx_table_find_loop i h tbl = None \<longleftrightarrow>
   (\<forall>j e. i \<le> j \<and> j < MAX_TX \<and> tbl j = Some e \<longrightarrow> handle e \<noteq> h)"
proof (induction "MAX_TX - i" arbitrary: i)
  case 0
  then show ?case by (simp add: find_loop_end)
next
  case (Suc n)
  then have lt: "i < MAX_TX" by simp
  have n: "n = MAX_TX - (i + 1)" using Suc.hyps(2) by simp
  have ih: "tx_table_find_loop (i + 1) h tbl = None \<longleftrightarrow>
   (\<forall>j e. i + 1 \<le> j \<and> j < MAX_TX \<and> tbl j = Some e \<longrightarrow> handle e \<noteq> h)"
    using Suc.hyps(1)[OF n] .
  show ?case
  proof (cases "\<exists>e. tbl i = Some e \<and> handle e = h")
    case True
    then obtain e where e: "tbl i = Some e" "handle e = h" by blast
    have "tx_table_find_loop i h tbl = Some e" using find_loop_hit[where i = i and tbl = tbl, OF lt e] .
    moreover have "\<not> (\<forall>j e. i \<le> j \<and> j < MAX_TX \<and> tbl j = Some e \<longrightarrow> handle e \<noteq> h)"
      using e lt by auto
    ultimately show ?thesis by simp
  next
    case False
    then have m: "\<forall>e. tbl i = Some e \<longrightarrow> handle e \<noteq> h" by blast
    have "(\<forall>j e. i \<le> j \<and> j < MAX_TX \<and> tbl j = Some e \<longrightarrow> handle e \<noteq> h)
          \<longleftrightarrow> (\<forall>j e. i + 1 \<le> j \<and> j < MAX_TX \<and> tbl j = Some e \<longrightarrow> handle e \<noteq> h)"
    proof
      assume a: "\<forall>j e. i \<le> j \<and> j < MAX_TX \<and> tbl j = Some e \<longrightarrow> handle e \<noteq> h"
      show "\<forall>j e. i + 1 \<le> j \<and> j < MAX_TX \<and> tbl j = Some e \<longrightarrow> handle e \<noteq> h"
      proof (intro allI impI)
        fix j e assume b: "i + 1 \<le> j \<and> j < MAX_TX \<and> tbl j = Some e"
        then have "i \<le> j \<and> j < MAX_TX \<and> tbl j = Some e" by simp
        then show "handle e \<noteq> h" using a by blast
      qed
    next
      assume a: "\<forall>j e. i + 1 \<le> j \<and> j < MAX_TX \<and> tbl j = Some e \<longrightarrow> handle e \<noteq> h"
      show "\<forall>j e. i \<le> j \<and> j < MAX_TX \<and> tbl j = Some e \<longrightarrow> handle e \<noteq> h"
      proof (intro allI impI)
        fix j e assume b: "i \<le> j \<and> j < MAX_TX \<and> tbl j = Some e"
        show "handle e \<noteq> h"
        proof (cases "j = i")
          case True then show ?thesis using b m by simp
        next
          case False
          then have "i + 1 \<le> j \<and> j < MAX_TX \<and> tbl j = Some e" using b by simp
          then show ?thesis using a by blast
        qed
      qed
    qed
    then show ?thesis using find_loop_miss[where i = i and tbl = tbl, OF lt m] ih by simp
  qed
qed

lemma find_loop_Some:
  "tx_table_find_loop i h tbl = Some e \<Longrightarrow> \<exists>j. i \<le> j \<and> j < MAX_TX \<and> tbl j = Some e \<and> handle e = h"
proof (induction "MAX_TX - i" arbitrary: i)
  case 0
  then show ?case by (simp add: find_loop_end)
next
  case (Suc n)
  then have lt: "i < MAX_TX" by simp
  show ?case
  proof (cases "\<exists>e'. tbl i = Some e' \<and> handle e' = h")
    case True
    then obtain e' where e: "tbl i = Some e'" "handle e' = h" by blast
    have "tx_table_find_loop i h tbl = Some e'" using find_loop_hit[where i = i and tbl = tbl, OF lt e] .
    then have "e' = e" using Suc.prems by simp
    then show ?thesis using e lt by auto
  next
    case False
    then have m: "\<forall>e. tbl i = Some e \<longrightarrow> handle e \<noteq> h" by blast
    have "tx_table_find_loop (i + 1) h tbl = Some e" using find_loop_miss[where i = i and tbl = tbl, OF lt m] Suc.prems by simp
    moreover have n: "n = MAX_TX - (i + 1)" using Suc.hyps(2) by simp
    ultimately obtain j where "i + 1 \<le> j \<and> j < MAX_TX \<and> tbl j = Some e \<and> handle e = h"
      using Suc.hyps(1)[OF n] by blast
    then show ?thesis by (intro exI[of _ j]) simp
  qed
qed


lemma free_loop_end: "\<not> i < MAX_TX \<Longrightarrow> tx_table_free_loop i h tbl = tbl"
  by (subst tx_table_free_loop.simps) simp

lemma free_loop_hit:
  "i < MAX_TX \<Longrightarrow> tbl i = Some e \<Longrightarrow> handle e = h \<Longrightarrow>
   tx_table_free_loop i h tbl = (if index (entry_txctx e) = int i then tbl(i := None) else tbl)"
  by (subst tx_table_free_loop.simps) simp

lemma free_loop_miss:
  "i < MAX_TX \<Longrightarrow> (\<forall>e. tbl i = Some e \<longrightarrow> handle e \<noteq> h) \<Longrightarrow>
   tx_table_free_loop i h tbl = tx_table_free_loop (i + 1) h tbl"
  by (subst tx_table_free_loop.simps) (auto split: option.splits)

lemma free_loop_result:
  "((\<forall>j e. i \<le> j \<and> j < MAX_TX \<and> tbl j = Some e \<longrightarrow> handle e \<noteq> h)
      \<and> tx_table_free_loop i h tbl = tbl)
   \<or> (\<exists>k e. i \<le> k \<and> k < MAX_TX \<and> tbl k = Some e \<and> handle e = h
            \<and> tx_table_free_loop i h tbl =
                (if index (entry_txctx e) = int k then tbl(k := None) else tbl))"
proof (induction "MAX_TX - i" arbitrary: i)
  case 0
  then show ?case by (simp add: free_loop_end)
next
  case (Suc n)
  then have lt: "i < MAX_TX" by simp
  show ?case
  proof (cases "\<exists>e. tbl i = Some e \<and> handle e = h")
    case True
    then obtain e where e: "tbl i = Some e" "handle e = h" by blast
    have "tx_table_free_loop i h tbl =
            (if index (entry_txctx e) = int i then tbl(i := None) else tbl)"
      using free_loop_hit[where i = i and tbl = tbl, OF lt e] .
    then show ?thesis using e lt by (intro disjI2 exI[of _ i] exI[of _ e]) simp
  next
    case False
    then have m: "\<forall>e. tbl i = Some e \<longrightarrow> handle e \<noteq> h" by blast
    have eq: "tx_table_free_loop i h tbl = tx_table_free_loop (i + 1) h tbl"
      using free_loop_miss[where i = i and tbl = tbl, OF lt m] .
    have n: "n = MAX_TX - (i + 1)" using Suc.hyps(2) by simp
    from Suc.hyps(1)[OF n] show ?thesis
    proof
      assume a: "(\<forall>j e. i + 1 \<le> j \<and> j < MAX_TX \<and> tbl j = Some e \<longrightarrow> handle e \<noteq> h)
                 \<and> tx_table_free_loop (i + 1) h tbl = tbl"
      have "\<forall>j e. i \<le> j \<and> j < MAX_TX \<and> tbl j = Some e \<longrightarrow> handle e \<noteq> h"
      proof (intro allI impI)
        fix j e assume b: "i \<le> j \<and> j < MAX_TX \<and> tbl j = Some e"
        show "handle e \<noteq> h"
        proof (cases "j = i")
          case True then show ?thesis using b m by simp
        next
          case False
          then have "i + 1 \<le> j \<and> j < MAX_TX \<and> tbl j = Some e" using b by simp
          then show ?thesis using a by blast
        qed
      qed
      then show ?thesis using a eq by simp
    next
      assume "\<exists>k e. i + 1 \<le> k \<and> k < MAX_TX \<and> tbl k = Some e \<and> handle e = h
            \<and> tx_table_free_loop (i + 1) h tbl =
                (if index (entry_txctx e) = int k then tbl(k := None) else tbl)"
      then obtain k e where k: "i + 1 \<le> k" "k < MAX_TX" "tbl k = Some e" "handle e = h"
          "tx_table_free_loop (i + 1) h tbl =
                (if index (entry_txctx e) = int k then tbl(k := None) else tbl)" by blast
      have "i \<le> k" using k(1) by simp
      then show ?thesis using k eq by (intro disjI2 exI[of _ k] exI[of _ e]) simp
    qed
  qed
qed

lemma put_loop_result:
  "tx_table_put_loop i rnd tc tbl = (None, tc, tbl)
   \<or> (\<exists>k. i \<le> k \<and> k < MAX_TX \<and> tbl k = None
          \<and> tx_table_put_loop i rnd tc tbl =
              (Some (new_entry k rnd tc), tc\<lparr>index := int k, txctx_handle := rand_handle rnd\<rparr>,
               tbl(k := Some (new_entry k rnd tc))))"
proof (induction "MAX_TX - i" arbitrary: i)
  case 0
  then show ?case by (simp add: put_loop_end)
next
  case (Suc n)
  then have lt: "i < MAX_TX" by simp
  show ?case
  proof (cases "tbl i")
    case None
    show ?thesis
      using put_loop_free[where i = i and tbl = tbl and rnd = rnd and tc = tc, OF lt None] lt None
      by (intro disjI2 exI[of _ i]) simp
  next
    case (Some e)
    have eq: "tx_table_put_loop i rnd tc tbl = tx_table_put_loop (i + 1) rnd tc tbl"
      using put_loop_occupied[where i = i and tbl = tbl, OF lt Some] .
    have n: "n = MAX_TX - (i + 1)" using Suc.hyps(2) by simp
    from Suc.hyps(1)[OF n] show ?thesis
    proof
      assume "tx_table_put_loop (i + 1) rnd tc tbl = (None, tc, tbl)"
      then show ?thesis using eq by simp
    next
      assume "\<exists>k. i + 1 \<le> k \<and> k < MAX_TX \<and> tbl k = None
          \<and> tx_table_put_loop (i + 1) rnd tc tbl =
              (Some (new_entry k rnd tc), tc\<lparr>index := int k, txctx_handle := rand_handle rnd\<rparr>,
               tbl(k := Some (new_entry k rnd tc)))"
      then obtain k where k: "i + 1 \<le> k" "k < MAX_TX" "tbl k = None"
          "tx_table_put_loop (i + 1) rnd tc tbl =
              (Some (new_entry k rnd tc), tc\<lparr>index := int k, txctx_handle := rand_handle rnd\<rparr>,
               tbl(k := Some (new_entry k rnd tc)))" by blast
      have "i \<le> k" using k(1) by simp
      then show ?thesis using k eq by (intro disjI2 exI[of _ k]) simp
    qed
  qed
qed

lemma tx_table_find_None_iff:
  "tx_table_find h tbl = None \<longleftrightarrow> (\<forall>j e. j < MAX_TX \<and> tbl j = Some e \<longrightarrow> handle e \<noteq> h)"
  by (simp add: tx_table_find_def find_loop_None_iff)

lemma find_after_free_same:
  assumes "tx_wf tbl" "tx_unique h tbl"
  shows "tx_table_find h (tx_table_free h tbl) = None"
proof -
  from free_loop_result[of 0 tbl h]
  show ?thesis
  proof
    assume a: "(\<forall>j e. 0 \<le> j \<and> j < MAX_TX \<and> tbl j = Some e \<longrightarrow> handle e \<noteq> h)
                 \<and> tx_table_free_loop 0 h tbl = tbl"
    then show ?thesis by (simp add: tx_table_find_None_iff tx_table_free_def)
  next
    assume "\<exists>k e. 0 \<le> k \<and> k < MAX_TX \<and> tbl k = Some e \<and> handle e = h
            \<and> tx_table_free_loop 0 h tbl =
                (if index (entry_txctx e) = int k then tbl(k := None) else tbl)"
    then obtain k e where k: "k < MAX_TX" "tbl k = Some e" "handle e = h"
        "tx_table_free_loop 0 h tbl =
                (if index (entry_txctx e) = int k then tbl(k := None) else tbl)" by blast
    have "index (entry_txctx e) = int k" using assms(1) k(1,2) by (simp add: tx_wf_def)
    then have r: "tx_table_free h tbl = tbl(k := None)" using k(4) by (simp add: tx_table_free_def)
    have "\<forall>j e'. j < MAX_TX \<and> (tbl(k := None)) j = Some e' \<longrightarrow> handle e' \<noteq> h"
    proof (intro allI impI)
      fix j e' assume b: "j < MAX_TX \<and> (tbl(k := None)) j = Some e'"
      then have jk: "j \<noteq> k" by (auto split: if_splits)
      then have tj: "tbl j = Some e'" using b by simp
      show "handle e' \<noteq> h"
      proof
        assume "handle e' = h"
        then have "j = k" using assms(2) b tj k(1,2,3) unfolding tx_unique_def by blast
        then show False using jk by simp
      qed
    qed
    then show ?thesis unfolding r tx_table_find_None_iff .
  qed
qed

lemma find_None_after_free:
  assumes "tx_table_find h tbl = None"
  shows "tx_table_find h (tx_table_free h' tbl) = None"
proof -
  have a: "\<forall>j e. j < MAX_TX \<and> tbl j = Some e \<longrightarrow> handle e \<noteq> h"
    using assms by (simp add: tx_table_find_None_iff)
  from free_loop_result[of 0 tbl h']
  have "tx_table_free h' tbl = tbl \<or> (\<exists>k. tx_table_free h' tbl = tbl(k := None))"
    unfolding tx_table_free_def by (auto split: if_splits)
  then show ?thesis
  proof
    assume "tx_table_free h' tbl = tbl" then show ?thesis using assms by simp
  next
    assume "\<exists>k. tx_table_free h' tbl = tbl(k := None)"
    then obtain k where r: "tx_table_free h' tbl = tbl(k := None)" by blast
    have "\<forall>j e. j < MAX_TX \<and> (tbl(k := None)) j = Some e \<longrightarrow> handle e \<noteq> h"
      using a by (auto split: if_splits)
    then show ?thesis unfolding r tx_table_find_None_iff .
  qed
qed

lemma find_None_after_put:
  assumes "tx_table_find h tbl = None" "rand_handle rnd \<noteq> h"
  shows "tx_table_find h (snd (snd (tx_table_put rnd tc tbl))) = None"
proof -
  have a: "\<forall>j e. j < MAX_TX \<and> tbl j = Some e \<longrightarrow> handle e \<noteq> h"
    using assms(1) by (simp add: tx_table_find_None_iff)
  from put_loop_result[of 0 rnd "tc\<lparr>index := - 1\<rparr>" tbl]
  show ?thesis
  proof
    assume "tx_table_put_loop 0 rnd (tc\<lparr>index := - 1\<rparr>) tbl = (None, tc\<lparr>index := - 1\<rparr>, tbl)"
    then show ?thesis using assms(1) by (simp add: tx_table_put_def)
  next
    assume "\<exists>k. 0 \<le> k \<and> k < MAX_TX \<and> tbl k = None
          \<and> tx_table_put_loop 0 rnd (tc\<lparr>index := - 1\<rparr>) tbl =
              (Some (new_entry k rnd (tc\<lparr>index := - 1\<rparr>)),
               tc\<lparr>index := - 1\<rparr>\<lparr>index := int k, txctx_handle := rand_handle rnd\<rparr>,
               tbl(k := Some (new_entry k rnd (tc\<lparr>index := - 1\<rparr>))))"
    then obtain k where k: "tx_table_put_loop 0 rnd (tc\<lparr>index := - 1\<rparr>) tbl =
              (Some (new_entry k rnd (tc\<lparr>index := - 1\<rparr>)),
               tc\<lparr>index := - 1\<rparr>\<lparr>index := int k, txctx_handle := rand_handle rnd\<rparr>,
               tbl(k := Some (new_entry k rnd (tc\<lparr>index := - 1\<rparr>))))" by blast
    have r: "snd (snd (tx_table_put rnd tc tbl)) = tbl(k := Some (new_entry k rnd (tc\<lparr>index := - 1\<rparr>)))"
      unfolding tx_table_put_def k by simp
    have "\<forall>j e. j < MAX_TX \<and> (tbl(k := Some (new_entry k rnd (tc\<lparr>index := - 1\<rparr>)))) j = Some e
            \<longrightarrow> handle e \<noteq> h"
      using a assms(2) by (auto simp: new_entry_def split: if_splits)
    then show ?thesis unfolding r tx_table_find_None_iff .
  qed
qed

lemma find_None_after_ops:
  "tx_table_find h tbl = None \<Longrightarrow>
   (\<forall>rnd tc. TxPut rnd tc \<in> set ops \<longrightarrow> rand_handle rnd \<noteq> h) \<Longrightarrow>
   tx_table_find h (tx_apply_all ops tbl) = None"
proof (induction ops arbitrary: tbl)
  case Nil
  then show ?case by simp
next
  case (Cons x xs)
  have "tx_table_find h (tx_apply x tbl) = None"
  proof (cases x)
    case (TxPut rnd tc)
    then have "rand_handle rnd \<noteq> h" using Cons.prems(2) by auto
    then show ?thesis using TxPut Cons.prems(1) by (simp add: find_None_after_put)
  next
    case (TxFree h')
    then show ?thesis using Cons.prems(1) by (simp add: find_None_after_free)
  qed
  moreover have "\<forall>rnd tc. TxPut rnd tc \<in> set xs \<longrightarrow> rand_handle rnd \<noteq> h"
    using Cons.prems(2) by auto
  ultimately show ?case using Cons.IH by simp
qed

section \<open>The handle registry and the session table\<close>

lemma handler_of_after_close: "handler_of (snd (AVPipeCloseInput h e s)) h = None"
  by (simp add: AVPipeCloseInput_def handler_of_def Let_def split: option.splits)

lemma go_step_keeps_closed:
  assumes "0 \<le> gHandleNum s" "gHandleNum s < 9223372036854775807"
    and "h \<le> gHandleNum s" "handler_of s h = None"
  shows "handler_of (snd (go_step c s)) h = None"
proof (cases c)
  case (CallNew url r)
  have w: "wrap64 (gHandleNum s + 1) = gHandleNum s + 1"
    using assms(1,2) by (simp add: wrap64_id)
  have ne: "gHandleNum s + 1 \<noteq> h" using assms(3) by simp
  show ?thesis
    using assms(4) ne unfolding CallNew
    by (auto simp: NewIOHandler_def Let_def w handler_of_def split: option.splits)
next
  case (CallClose fd e)
  show ?thesis using assms(4) unfolding CallClose
    by (auto simp: AVPipeCloseInput_def Let_def handler_of_def split: option.splits)
next
  case (CallOpenOutput h' si sg ty r)
  show ?thesis using assms(4) unfolding CallOpenOutput
    by (auto simp: AVPipeOpenOutput_def Let_def handler_of_def split: option.splits)
qed (simp_all add: assms(4))

lemma go_run_keeps_closed:
  "0 \<le> gHandleNum s \<Longrightarrow> gHandleNum s + int (length cs) < 9223372036854775808 \<Longrightarrow>
   h \<le> gHandleNum s \<Longrightarrow> handler_of s h = None \<Longrightarrow>
   handler_of (snd (go_run cs s)) h = None"
proof (induction cs arbitrary: s)
  case Nil
  then show ?case by simp
next
  case (Cons c cs)
  have lt: "gHandleNum s < 9223372036854775807" using Cons.prems(2) by simp
  have cnt: "gHandleNum s \<le> gHandleNum (snd (go_step c s))"
            "gHandleNum (snd (go_step c s)) \<le> gHandleNum s + 1"
    using go_step_counter[OF Cons.prems(1) lt, of c] by simp_all
  have k: "handler_of (snd (go_step c s)) h = None"
    using go_step_keeps_closed[OF Cons.prems(1) lt Cons.prems(3,4)] .
  have "handler_of (snd (go_run cs (snd (go_step c s)))) h = None"
    using Cons.IH[of "snd (go_step c s)"] Cons.prems cnt k by simp
  then show ?case by (simp only: go_run_Cons snd_conv)
qed

lemma go_step_absent:
  "handler_of s h = None \<Longrightarrow> call_handle c = Some h \<Longrightarrow> go_step c s = (Ret (- 1), s)"
  by (cases c)
     (simp_all add: AVPipeReadInput_def AVPipeSeekInput_def AVPipeCloseInput_def
        AVPipeStatInput_def AVPipeOpenOutput_def AVPipeWriteOutput_def AVPipeSeekOutput_def
        AVPipeCloseOutput_def AVPipeStatOutput_def)

lemma gHandleNum_after_close: "gHandleNum (snd (AVPipeCloseInput h e s)) = gHandleNum s"
  by (simp add: AVPipeCloseInput_counter)

text \<open>
  Claim C3, as stated, fails on the session table: \<^verbatim>\<open>tx_table_put\<close> takes the handle
  from \<^verbatim>\<open>rand()\<close> without a look at the table, so two live sessions can carry the same
  handle 5; after \<^verbatim>\<open>tx_table_free(5)\<close> released the first of them, \<^verbatim>\<open>tx_table_find(5)\<close>
  returns the second.
\<close>

theorem lookup_after_unregister_counterexample:
  "tx_table_find 5
     (tx_table_free 5
        (tx_apply_all
           [TxPut 5 \<lparr>index = 0, txctx_handle = 0, decoder_cancelled = False, encoder_cancelled = False\<rparr>,
            TxPut 5 \<lparr>index = 0, txctx_handle = 0, decoder_cancelled = False, encoder_cancelled = False\<rparr>]
           empty_tx_table))
   = Some \<lparr>handle = 5,
           entry_txctx = \<lparr>index = 1, txctx_handle = 5, decoder_cancelled = False,
                          encoder_cancelled = False\<rparr>,
           entry_done = 0\<rparr>"
  by (simp add: tx_table_put_def tx_table_free_def tx_table_find_def
        tx_table_put_loop.simps tx_table_find_loop.simps tx_table_free_loop.simps
        MAX_TX_def empty_tx_table_def Let_def)

text \<open>
  Claim C3, amended.  In the Go registry, once \<^verbatim>\<open>AVPipeCloseInput\<close> has been called for a
  handle \<open>h\<close> that was issued (\<open>h\<close> is at most the counter), every later lookup of \<open>h\<close>
  is nil after any sequence of dispatcher calls (inside the 64-bit range of the counter),
  and each of the nine dispatcher operations called with \<open>h\<close> returns -1 and changes
  nothing.  In the session table, after \<^verbatim>\<open>tx_table_free\<close> of a handle \<open>h'\<close> that at most
  one live entry carried, \<^verbatim>\<open>tx_table_find\<close> returns no entry after any sequence of
  further puts and frees in which \<^verbatim>\<open>rand()\<close> does not give \<open>h'\<close> out again, and
  \<^verbatim>\<open>tx_run\<close> refuses the handle with -1.
\<close>

theorem lookup_after_unregister_absent:
  assumes "0 \<le> gHandleNum s" and "gHandleNum s + int (length cs) < 9223372036854775808"
    and "h \<le> gHandleNum s"
    and "tx_wf tbl" and "tx_unique h' tbl"
    and "\<forall>rnd tc. TxPut rnd tc \<in> set ops \<longrightarrow> rand_handle rnd \<noteq> h'"
  shows "handler_of (snd (go_run cs (snd (AVPipeCloseInput h e s)))) h = None
         \<and> (\<forall>c. call_handle c = Some h \<longrightarrow>
                go_step c (snd (go_run cs (snd (AVPipeCloseInput h e s))))
                  = (Ret (- 1), snd (go_run cs (snd (AVPipeCloseInput h e s)))))
         \<and> tx_table_find h' (tx_apply_all ops (tx_table_free h' tbl)) = None
         \<and> tx_run h' tx_ok (tx_apply_all ops (tx_table_free h' tbl))
             = (- 1, tx_apply_all ops (tx_table_free h' tbl))"
proof -
  let ?s1 = "snd (AVPipeCloseInput h e s)"
  have a: "handler_of (snd (go_run cs ?s1)) h = None"
    using go_run_keeps_closed[of ?s1 cs h] assms(1,2,3)
    by (simp add: gHandleNum_after_close handler_of_after_close)
  have b: "\<forall>c. call_handle c = Some h \<longrightarrow>
             go_step c (snd (go_run cs ?s1)) = (Ret (- 1), snd (go_run cs ?s1))"
    using go_step_absent[OF a] by blast
  have c: "tx_table_find h' (tx_apply_all ops (tx_table_free h' tbl)) = None"
    using find_None_after_ops[OF find_after_free_same[OF assms(4,5)] assms(6)] .
  have d: "tx_run h' tx_ok (tx_apply_all ops (tx_table_free h' tbl))
             = (- 1, tx_apply_all ops (tx_table_free h' tbl))"
    using c by (simp add: tx_run_def)
  show ?thesis using a b c d by blast
qed

theorem lookup_after_unregister_witness:
  "handler_of (snd (go_run [CallNew ''a.mp4'' (Some (7, 100))]
                     (InitIOHandler (Some 1) (Some 2) go_init))) 1 \<noteq> None
   \<and> handler_of
        (snd (go_run [CallNew ''b.mp4'' (Some (8, 0)), CallRead 1 4096 (188, False)]
           (snd (AVPipeCloseInput 1 False
              (snd (go_run [CallNew ''a.mp4'' (Some (7, 100))]
                     (InitIOHandler (Some 1) (Some 2) go_init))))))) 1 = None
   \<and> tx_table_find 5
        (empty_tx_table(0 := Some (new_entry 0 5 \<lparr>index = 0, txctx_handle = 0,
                            decoder_cancelled = False, encoder_cancelled = False\<rparr>))) \<noteq> None
   \<and> tx_table_find 5
        (tx_apply_all
           [TxPut 9 \<lparr>index = 0, txctx_handle = 0, decoder_cancelled = False, encoder_cancelled = False\<rparr>,
            TxFree 9]
           (tx_table_free 5
              (empty_tx_table(0 := Some (new_entry 0 5 \<lparr>index = 0, txctx_handle = 0,
                            decoder_cancelled = False, encoder_cancelled = False\<rparr>))))) = None"
proof -
  let ?s = "snd (go_run [CallNew ''a.mp4'' (Some (7, 100))]
                     (InitIOHandler (Some 1) (Some 2) go_init))"
  let ?cs = "[CallNew ''b.mp4'' (Some (8, 0)), CallRead 1 4096 (188, False)]"
  let ?tc = "\<lparr>index = 0, txctx_handle = 0, decoder_cancelled = False, encoder_cancelled = False\<rparr>"
  let ?tbl = "empty_tx_table(0 := Some (new_entry 0 5 ?tc))"
  let ?ops = "[TxPut 9 ?tc, TxFree 9]"
  have g: "gHandleNum ?s = 1"
    by (simp add: InitIOHandler_def go_init_def NewIOHandler_def wrap64_def Let_def)
  have a: "0 \<le> gHandleNum ?s" "gHandleNum ?s + int (length ?cs) < 9223372036854775808"
          "1 \<le> gHandleNum ?s"
    using g by simp_all
  have r: "handler_of ?s 1 \<noteq> None"
    by (simp add: InitIOHandler_def go_init_def NewIOHandler_def wrap64_def Let_def handler_of_def)
  have w: "tx_wf ?tbl"
    by (auto simp: tx_wf_def empty_tx_table_def new_entry_def split: if_splits)
  have u: "tx_unique 5 ?tbl"
    by (auto simp: tx_unique_def empty_tx_table_def split: if_splits)
  have o: "\<forall>rnd tc. TxPut rnd tc \<in> set ?ops \<longrightarrow> rand_handle rnd \<noteq> 5"
    by (auto simp: rand_handle_def)
  have f: "tx_table_find 5 ?tbl \<noteq> None"
    by (simp add: tx_table_find_def tx_table_find_loop.simps MAX_TX_def new_entry_def
                  rand_handle_def)
  show ?thesis
    using lookup_after_unregister_absent[OF a w u o, of False True] r f by blast
qed

text \<open>
  Claim C4, as stated, fails: no comparison with the live handles is made.  When
  \<^verbatim>\<open>rand()\<close> returns 5 twice, the second \<^verbatim>\<open>tx_table_put\<close> returns 5 again and positions 0
  and 1 of the table both hold a live entry with handle 5.
\<close>

theorem tx_table_put_collision_counterexample:
  "fst (tx_table_put 5 \<lparr>index = 0, txctx_handle = 0, decoder_cancelled = False, encoder_cancelled = False\<rparr>
          (tx_apply (TxPut 5 \<lparr>index = 0, txctx_handle = 0, decoder_cancelled = False,
                               encoder_cancelled = False\<rparr>) empty_tx_table)) = 5
   \<and> map_option handle
        (tx_apply_all
           [TxPut 5 \<lparr>index = 0, txctx_handle = 0, decoder_cancelled = False, encoder_cancelled = False\<rparr>,
            TxPut 5 \<lparr>index = 0, txctx_handle = 0, decoder_cancelled = False, encoder_cancelled = False\<rparr>]
           empty_tx_table 0) = Some 5
   \<and> map_option handle
        (tx_apply_all
           [TxPut 5 \<lparr>index = 0, txctx_handle = 0, decoder_cancelled = False, encoder_cancelled = False\<rparr>,
            TxPut 5 \<lparr>index = 0, txctx_handle = 0, decoder_cancelled = False, encoder_cancelled = False\<rparr>]
           empty_tx_table 1) = Some 5"
  by (simp add: tx_table_put_def tx_table_put_loop.simps MAX_TX_def empty_tx_table_def Let_def)

text \<open>
  Claim C4, amended.  A register operation on a table with a free position stores the
  new entry at the first free position \<open>k\<close>, with the value of \<^verbatim>\<open>rand()\<close> (negated when
  negative) as its handle, and returns that handle; every other position is left as it
  was, so a position never holds more than one entry.  The handle is not compared with
  the live ones: if a live entry already carries it, both entries are live with the same
  handle afterwards.
\<close>

theorem tx_table_put_first_free_slot:
  assumes "k < MAX_TX" and "tbl k = None" and "\<forall>j<k. tbl j \<noteq> None"
  shows "tx_table_put rnd tc tbl =
           (rand_handle rnd,
            tc\<lparr>index := int k, txctx_handle := rand_handle rnd\<rparr>,
            tbl(k := Some (new_entry k rnd tc)))
         \<and> (\<forall>j. j \<noteq> k \<longrightarrow> snd (snd (tx_table_put rnd tc tbl)) j = tbl j)
         \<and> (\<forall>j e. j < MAX_TX \<and> tbl j = Some e \<and> handle e = rand_handle rnd \<longrightarrow>
                j \<noteq> k
                \<and> map_option handle (snd (snd (tx_table_put rnd tc tbl)) j) = Some (rand_handle rnd)
                \<and> map_option handle (snd (snd (tx_table_put rnd tc tbl)) k) = Some (rand_handle rnd))"
proof -
  have "tx_table_put_loop 0 rnd (tc\<lparr>index := - 1\<rparr>) tbl =
     (Some (new_entry k rnd (tc\<lparr>index := - 1\<rparr>)),
      tc\<lparr>index := - 1\<rparr>\<lparr>index := int k, txctx_handle := rand_handle rnd\<rparr>,
      tbl(k := Some (new_entry k rnd (tc\<lparr>index := - 1\<rparr>))))"
    using tx_table_put_loop_first_free[of 0 k tbl rnd "tc\<lparr>index := - 1\<rparr>"] assms by simp
  moreover have "new_entry k rnd (tc\<lparr>index := - 1\<rparr>) = new_entry k rnd tc"
    by (simp add: new_entry_def)
  ultimately have r: "tx_table_put rnd tc tbl =
           (rand_handle rnd,
            tc\<lparr>index := int k, txctx_handle := rand_handle rnd\<rparr>,
            tbl(k := Some (new_entry k rnd tc)))"
    by (simp add: tx_table_put_def new_entry_def)
  show ?thesis unfolding r using assms(2) by (auto simp: new_entry_def)
qed

theorem tx_table_put_first_free_slot_witness:
  "tx_table_put 7 \<lparr>index = 0, txctx_handle = 0, decoder_cancelled = False, encoder_cancelled = False\<rparr>
     (empty_tx_table(0 := Some (new_entry 0 7 \<lparr>index = 0, txctx_handle = 0,
                                 decoder_cancelled = False, encoder_cancelled = False\<rparr>)))
   = (7, \<lparr>index = 1, txctx_handle = 7, decoder_cancelled = False, encoder_cancelled = False\<rparr>,
      (empty_tx_table(0 := Some (new_entry 0 7 \<lparr>index = 0, txctx_handle = 0,
                                 decoder_cancelled = False, encoder_cancelled = False\<rparr>)))
        (1 := Some (new_entry 1 7 \<lparr>index = 0, txctx_handle = 0,
                                 decoder_cancelled = False, encoder_cancelled = False\<rparr>)))"
proof -
  let ?tc = "\<lparr>index = 0, txctx_handle = 0, decoder_cancelled = False, encoder_cancelled = False\<rparr>"
  let ?tbl = "empty_tx_table(0 := Some (new_entry 0 7 ?tc))"
  have a: "(1::nat) < MAX_TX" by (simp add: MAX_TX_def)
  have b: "?tbl 1 = None" by (simp add: empty_tx_table_def)
  have c: "\<forall>j<1. ?tbl j \<noteq> None" by simp
  have t: "tx_table_put 7 ?tc ?tbl =
           (rand_handle 7, ?tc\<lparr>index := int 1, txctx_handle := rand_handle 7\<rparr>,
            ?tbl(1 := Some (new_entry 1 7 ?tc)))"
    using tx_table_put_first_free_slot[OF a b c, of 7 ?tc] by (rule conjunct1)
  show ?thesis unfolding t by (simp add: rand_handle_def)
qed

text \<open>
  Claim C5.  With all 128 positions of the session table taken, \<^verbatim>\<open>tx_init\<close> for a valid
  file name whose input opens and whose \<^verbatim>\<open>avpipe_init\<close> succeeds returns -1 and leaves
  the table as it was, but it makes none of the releases of \<^verbatim>\<open>end_tx_init\<close>: the test
  \<^verbatim>\<open>(handle = tx_table_put(txctx)) < 0\<close> is made on a \<^verbatim>\<open>uint32_t\<close> and never holds, so
  the input handler opened for the call stays registered in the Go dispatcher.  The same
  function does release everything when \<^verbatim>\<open>avpipe_init\<close> fails.
\<close>

theorem tx_init_full_table_skips_release:
  assumes "\<forall>i<MAX_TX. tbl i \<noteq> None"
    and "fname \<noteq> []"
    and "gInputOpener s \<noteq> None" and "gOutputOpener s \<noteq> None"
    and "0 \<le> gHandleNum s" and "gHandleNum s < 9223372036854775807"
  shows "fst (tx_init (Some fname) (Some (inp, n)) True rnd close_err tbl s) = - 1
         \<and> fst (snd (tx_init (Some fname) (Some (inp, n)) True rnd close_err tbl s)) = []
         \<and> fst (snd (snd (tx_init (Some fname) (Some (inp, n)) True rnd close_err tbl s))) = tbl
         \<and> handler_of (snd (snd (snd (tx_init (Some fname) (Some (inp, n)) True rnd close_err tbl s))))
              (gHandleNum s + 1) = Some \<lparr>input = inp, outTable = Map.empty\<rparr>
         \<and> fst (snd (tx_init (Some fname) (Some (inp, n)) False rnd close_err tbl s)) = end_tx_init
         \<and> handler_of (snd (snd (snd (tx_init (Some fname) (Some (inp, n)) False rnd close_err tbl s))))
              (gHandleNum s + 1) = None"
proof -
  have w: "wrap64 (gHandleNum s + 1) = gHandleNum s + 1"
    using assms(5,6) by (simp add: wrap64_id)
  have op: "(case gURLInputOpeners s fname of Some p \<Rightarrow> Some p | None \<Rightarrow> gInputOpener s) \<noteq> None"
           "(case gURLOutputOpeners s fname of Some p \<Rightarrow> Some p | None \<Rightarrow> gOutputOpener s) \<noteq> None"
    using assms(3,4) by (auto split: option.splits)
  define s1 where "s1 = s\<lparr>gHandleNum := gHandleNum s + 1,
       gHandlers := (gHandlers s)(gHandleNum s + 1 \<mapsto> Some \<lparr>input = inp, outTable = Map.empty\<rparr>)\<rparr>"
  have new: "NewIOHandler fname (Some (inp, n)) s = (gHandleNum s + 1, Some n, s1)"
    using op by (simp add: NewIOHandler_def Let_def w s1_def)
  have pos: "\<not> gHandleNum s + 1 \<le> 0" using assms(5) by simp
  obtain ic where opn: "in_opener fname (Some (inp, n)) calloc_ioctx s = (0, ic, s1)"
    and ic: "opaque ic = gHandleNum s + 1"
    using new pos by (simp add: in_opener_def Let_def)
  have put: "tx_table_put rnd \<lparr>index = 0, txctx_handle = 0, decoder_cancelled = False,
                encoder_cancelled = False\<rparr> tbl
             = (- 1, \<lparr>index = - 1, txctx_handle = 0, decoder_cancelled = False,
                encoder_cancelled = False\<rparr>, tbl)"
    using tx_table_put_loop_full[of 0 tbl rnd] assms(1) by (simp add: tx_table_put_def)
  have full: "tx_init (Some fname) (Some (inp, n)) True rnd close_err tbl s = (- 1, [], tbl, s1)"
    using assms(2) opn put by (simp add: tx_init_def to_uint32_def wrap32_def)
  have h1: "handler_of s1 (gHandleNum s + 1) = Some \<lparr>input = inp, outTable = Map.empty\<rparr>"
    by (simp add: s1_def handler_of_def)
  have bad: "tx_init (Some fname) (Some (inp, n)) False rnd close_err tbl s
               = (- 1, end_tx_init, tbl, snd (AVPipeCloseInput (gHandleNum s + 1) close_err s1))"
    using assms(2) opn ic by (simp add: tx_init_def in_closer_def)
  show ?thesis unfolding full bad using h1 by (simp add: handler_of_after_close)
qed

theorem tx_init_full_table_witness:
  "fst (tx_init (Some ''in.mp4'') (Some (7, 100)) True 41 False
          (\<lambda>i. Some (new_entry i 3 \<lparr>index = 0, txctx_handle = 0, decoder_cancelled = False,
                                     encoder_cancelled = False\<rparr>))
          (InitIOHandler (Some 1) (Some 2) go_init)) = - 1
   \<and> fst (snd (tx_init (Some ''in.mp4'') (Some (7, 100)) True 41 False
          (\<lambda>i. Some (new_entry i 3 \<lparr>index = 0, txctx_handle = 0, decoder_cancelled = False,
                                     encoder_cancelled = False\<rparr>))
          (InitIOHandler (Some 1) (Some 2) go_init))) = []
   \<and> handler_of (snd (snd (snd (tx_init (Some ''in.mp4'') (Some (7, 100)) True 41 False
          (\<lambda>i. Some (new_entry i 3 \<lparr>index = 0, txctx_handle = 0, decoder_cancelled = False,
                                     encoder_cancelled = False\<rparr>))
          (InitIOHandler (Some 1) (Some 2) go_init))))) 1 \<noteq> None"
proof -
  let ?tbl = "\<lambda>i. Some (new_entry i 3 \<lparr>index = 0, txctx_handle = 0, decoder_cancelled = False,
                                     encoder_cancelled = False\<rparr>)"
  let ?s = "InitIOHandler (Some 1) (Some 2) go_init"
  have a: "\<forall>i<MAX_TX. ?tbl i \<noteq> None" by simp
  have b: "''in.mp4'' \<noteq> []" by simp
  have c: "gInputOpener ?s \<noteq> None" "gOutputOpener ?s \<noteq> None"
    by (simp_all add: InitIOHandler_def)
  have d: "0 \<le> gHandleNum ?s" "gHandleNum ?s < 9223372036854775807" "gHandleNum ?s + 1 = 1"
    by (simp_all add: InitIOHandler_def go_init_def)
  show ?thesis
    using tx_init_full_table_skips_release[OF a b c d(1,2), of 7 100 41 False] d(3)
    by simp
qed

section \<open>Output slot ids\<close>

lemma NewIOHandler_gFd: "gFd (snd (snd (NewIOHandler url r s))) = gFd s"
  by (simp add: NewIOHandler_def Let_def split: option.splits prod.splits)

lemma AVPipeCloseInput_gFd: "gFd (snd (AVPipeCloseInput fd e s)) = gFd s"
  by (simp add: AVPipeCloseInput_def Let_def split: option.splits)

lemma AVPipeOpenOutput_gFd:
  assumes "0 \<le> gFd s" "gFd s < 9223372036854775807"
  shows "gFd s \<le> gFd (snd (AVPipeOpenOutput h si sg ty r s))
         \<and> gFd (snd (AVPipeOpenOutput h si sg ty r s)) \<le> gFd s + 1
         \<and> (\<forall>fd. fst (AVPipeOpenOutput h si sg ty r s) = Ret fd \<and> fd \<noteq> - 1 \<longrightarrow>
               fd = gFd s + 1 \<and> gFd (snd (AVPipeOpenOutput h si sg ty r s)) = fd)"
proof -
  have w: "wrap64 (gFd s + 1) = gFd s + 1" using assms by (simp add: wrap64_id)
  show ?thesis unfolding AVPipeOpenOutput_def Let_def w
    by (auto split: option.splits)
qed

lemma go_step_gFd:
  assumes "0 \<le> gFd s" "gFd s < 9223372036854775807"
  shows "gFd s \<le> gFd (snd (go_step c s)) \<and> gFd (snd (go_step c s)) \<le> gFd s + 1"
proof (cases c)
  case (CallNew url r)
  show ?thesis using NewIOHandler_gFd[of url r s] unfolding CallNew
    by (simp add: case_prod_unfold)
next
  case (CallOpenOutput h si sg ty r)
  show ?thesis using AVPipeOpenOutput_gFd[OF assms, of h si sg ty r] unfolding CallOpenOutput
    by simp
qed (simp_all add: AVPipeCloseInput_gFd)

lemma issued_slots_other:
  "\<not> (\<exists>h si sg ty x fd. c = CallOpenOutput h si sg ty x \<and> r = Ret fd \<and> fd \<noteq> - 1) \<Longrightarrow>
   issued_slots ((c, r) # tr) = issued_slots tr"
  by (cases c; cases r) simp_all

lemma issued_slots_run:
  "0 \<le> gFd s \<Longrightarrow> gFd s + int (length cs) < 9223372036854775808 \<Longrightarrow>
   sorted_wrt (<) (issued_slots (fst (go_run cs s)))
   \<and> (\<forall>fd \<in> set (issued_slots (fst (go_run cs s))). gFd s < fd)"
proof (induction cs arbitrary: s)
  case Nil
  then show ?case by simp
next
  case (Cons c cs)
  define r where "r = fst (go_step c s)"
  define s' where "s' = snd (go_step c s)"
  define tr where "tr = fst (go_run cs s')"
  have lt: "gFd s < 9223372036854775807" using Cons.prems by simp
  have cnt: "gFd s \<le> gFd s'" "gFd s' \<le> gFd s + 1"
    using go_step_gFd[OF Cons.prems(1) lt, of c] by (simp_all add: s'_def)
  have b: "gFd s' + int (length cs) < 9223372036854775808"
    using Cons.prems(2) cnt(2) by simp
  have nn: "0 \<le> gFd s'" using Cons.prems(1) cnt(1) by simp
  have ih: "sorted_wrt (<) (issued_slots tr)" "\<forall>fd \<in> set (issued_slots tr). gFd s' < fd"
    using Cons.IH[OF nn b] by (simp_all add: tr_def)
  have run: "fst (go_run (c # cs) s) = (c, r) # tr"
    by (simp only: go_run_Cons r_def s'_def tr_def fst_conv)
  have up: "\<forall>x \<in> set (issued_slots tr). gFd s < x"
    using ih(2) cnt(1) by fastforce
  show ?case
  proof (cases "\<exists>h si sg ty x fd. c = CallOpenOutput h si sg ty x \<and> r = Ret fd \<and> fd \<noteq> - 1")
    case True
    then obtain h si sg ty x fd where c: "c = CallOpenOutput h si sg ty x" "r = Ret fd" "fd \<noteq> - 1"
      by blast
    have "fst (AVPipeOpenOutput h si sg ty x s) = Ret fd"
         "snd (AVPipeOpenOutput h si sg ty x s) = s'"
      using c r_def s'_def by simp_all
    then have h: "fd = gFd s + 1" "gFd s' = fd"
      using AVPipeOpenOutput_gFd[OF Cons.prems(1) lt, of h si sg ty x] c(3) by auto
    have e: "issued_slots ((c, r) # tr) = fd # issued_slots tr" using c by simp
    have "\<forall>x \<in> set (issued_slots tr). fd < x" using ih(2) h(2) by simp
    then show ?thesis unfolding run e using h(1) ih(1) up by simp
  next
    case False
    show ?thesis unfolding run issued_slots_other[OF False] using ih(1) up by simp
  qed
qed

lemma slot_id_in_range:
  assumes "si = 0 \<or> si = 1" "- 1073741824 < sg" "sg \<le> 1073741824"
  shows "slot_id si sg = (sg - 1) * 2 + si" and "wrap32 (slot_id si sg) = (sg - 1) * 2 + si"
proof -
  have a: "wrap32 (sg - 1) = sg - 1" using assms(2,3) by (simp add: wrap32_id)
  have b: "wrap32 ((sg - 1) * 2 + si) = (sg - 1) * 2 + si"
    using assms by (intro wrap32_id) auto
  show "slot_id si sg = (sg - 1) * 2 + si" unfolding slot_id_def a ..
  then show "wrap32 (slot_id si sg) = (sg - 1) * 2 + si" using b by (simp only:)
qed

text \<open>
  Claim C8, as stated, fails for the dispatcher of \<^verbatim>\<open>avpipe_handler.go\<close>, whose slot id
  is \<^verbatim>\<open>(seg_index-1)*2 + stream_index\<close>: in one session the pairs (stream 2, segment 1)
  and (stream 0, segment 2) both get the slot id 2, and the second open replaces the
  table entry of the first.
\<close>

theorem slot_id_collision_counterexample:
  "fst (handler_AVPipeOpenOutput 1 2 1 (Some avpipe_video_segment) (Some 21)
          (snd (go_run [CallNew ''in.mp4'' (Some (7, 100))]
                  (InitIOHandler (Some 1) (Some 2) go_init)))) = Ret 2
   \<and> fst (handler_AVPipeOpenOutput 1 0 2 (Some avpipe_video_segment) (Some 22)
          (snd (handler_AVPipeOpenOutput 1 2 1 (Some avpipe_video_segment) (Some 21)
             (snd (go_run [CallNew ''in.mp4'' (Some (7, 100))]
                     (InitIOHandler (Some 1) (Some 2) go_init)))))) = Ret 2"
  by (simp add: handler_AVPipeOpenOutput_def slot_id_def wrap32_def wrap64_def Let_def
        InitIOHandler_def go_init_def NewIOHandler_def handler_of_def putOutTable_def)

text \<open>
  Claim C8, amended.  The dispatcher with the slot counter \<^verbatim>\<open>gFd\<close> issues strictly
  increasing slot ids: in every run of dispatcher calls that starts with a non-negative
  counter and stays inside the 64-bit range, the ids returned by successful
  \<^verbatim>\<open>AVPipeOpenOutput\<close> calls are positive and pairwise distinct, whatever the stream
  index, the segment index and the kind of the output.  The formula of
  \<^verbatim>\<open>avpipe_handler.go\<close> gives distinct ids to distinct (stream, segment) pairs when the
  stream indices are 0 or 1 and the segment indices lie between \<open>-2^30\<close> (excluded) and
  \<open>2^30\<close> (included), both as table keys and as the \<^verbatim>\<open>C.int\<close> values returned.
\<close>

theorem slot_ids_pairwise_distinct:
  assumes "0 \<le> gFd s" and "gFd s + int (length cs) < 9223372036854775808"
    and "si = 0 \<or> si = 1" and "si' = 0 \<or> si' = 1"
    and "- 1073741824 < sg" and "sg \<le> 1073741824"
    and "- 1073741824 < sg'" and "sg' \<le> 1073741824"
  shows "sorted_wrt (<) (issued_slots (fst (go_run cs s)))
         \<and> distinct (issued_slots (fst (go_run cs s)))
         \<and> (\<forall>fd \<in> set (issued_slots (fst (go_run cs s))). 0 < fd)
         \<and> (slot_id si sg = slot_id si' sg' \<longleftrightarrow> si = si' \<and> sg = sg')
         \<and> (wrap32 (slot_id si sg) = wrap32 (slot_id si' sg') \<longleftrightarrow> si = si' \<and> sg = sg')"
proof -
  have r: "sorted_wrt (<) (issued_slots (fst (go_run cs s)))"
    "\<forall>fd \<in> set (issued_slots (fst (go_run cs s))). gFd s < fd"
    using issued_slots_run[OF assms(1,2)] by simp_all
  have d: "distinct (issued_slots (fst (go_run cs s)))"
    using r(1) strict_sorted_iff by blast
  have p: "\<forall>fd \<in> set (issued_slots (fst (go_run cs s))). 0 < fd"
    using r(2) assms(1) by fastforce
  note a = slot_id_in_range[OF assms(3,5,6)]
  note b = slot_id_in_range[OF assms(4,7,8)]
  have e: "(sg - 1) * 2 + si = (sg' - 1) * 2 + si' \<longleftrightarrow> si = si' \<and> sg = sg'"
    using assms(3,4) by presburger
  have f1: "slot_id si sg = slot_id si' sg' \<longleftrightarrow> si = si' \<and> sg = sg'"
    unfolding a(1) b(1) by (rule e)
  have f2: "wrap32 (slot_id si sg) = wrap32 (slot_id si' sg') \<longleftrightarrow> si = si' \<and> sg = sg'"
    unfolding a(2) b(2) by (rule e)
  show ?thesis by (intro conjI r(1) d p f1 f2)
qed

theorem slot_ids_pairwise_distinct_witness:
  "issued_slots (fst (go_run
      [CallNew ''in.mp4'' (Some (7, 100)),
       CallOpenOutput 1 0 (- 1) (Some avpipe_manifest) (Some 20),
       CallOpenOutput 1 0 1 (Some avpipe_video_segment) (Some 21),
       CallOpenOutput 1 0 1 None (Some 22),
       CallOpenOutput 1 0 1 (Some avpipe_video_segment) (Some 23)]
      (InitIOHandler (Some 1) (Some 2) go_init))) = [1, 2, 4]
   \<and> distinct (issued_slots (fst (go_run
      [CallNew ''in.mp4'' (Some (7, 100)),
       CallOpenOutput 1 0 (- 1) (Some avpipe_manifest) (Some 20),
       CallOpenOutput 1 0 1 (Some avpipe_video_segment) (Some 21),
       CallOpenOutput 1 0 1 None (Some 22),
       CallOpenOutput 1 0 1 (Some avpipe_video_segment) (Some 23)]
      (InitIOHandler (Some 1) (Some 2) go_init))))
   \<and> slot_id 1 5 = 9 \<and> slot_id 0 6 = 10
   \<and> (slot_id 1 5 = slot_id 0 6 \<longleftrightarrow> (1::int) = 0 \<and> (5::int) = 6)"
proof -
  let ?s = "InitIOHandler (Some 1) (Some 2) go_init"
  let ?cs = "[CallNew ''in.mp4'' (Some (7, 100)),
       CallOpenOutput 1 0 (- 1) (Some avpipe_manifest) (Some 20),
       CallOpenOutput 1 0 1 (Some avpipe_video_segment) (Some 21),
       CallOpenOutput 1 0 1 None (Some 22),
       CallOpenOutput 1 0 1 (Some avpipe_video_segment) (Some 23)]"
  have a: "0 \<le> gFd ?s" "gFd ?s + int (length ?cs) < 9223372036854775808"
    by (simp_all add: InitIOHandler_def go_init_def)
  have b: "(1::int) = 0 \<or> (1::int) = 1" "(0::int) = 0 \<or> (0::int) = 1"
          "- 1073741824 < (5::int)" "(5::int) \<le> 1073741824"
          "- 1073741824 < (6::int)" "(6::int) \<le> 1073741824"
    by simp_all
  have e: "issued_slots (fst (go_run ?cs ?s)) = [1, 2, 4]"
    by (simp add: InitIOHandler_def go_init_def NewIOHandler_def AVPipeOpenOutput_def
                  handler_of_def putOutTable_def wrap64_def Let_def)
  have v: "slot_id 1 5 = 9" "slot_id 0 6 = 10" by (simp_all add: slot_id_def wrap32_def)
  show ?thesis
    using slot_ids_pairwise_distinct[OF a b] e v by simp
qed

section \<open>The backpressured stream adapter\<close>









section \<open>Timeouts of the live capture readers\<close>

lemma readUdp_loop_early_timeouts:
  "readUdp_loop (replicate k (Read_fails 0 True) @ es) 0 = readUdp_loop es 0"
  by (induction k) simp_all

text \<open>
  Claim C6, as stated, fails.  In the Go reader a timeout after 188 bytes were delivered
  makes \<^verbatim>\<open>readUdp\<close> return the error \<^verbatim>\<open>EAV_IO_TIMEOUT\<close>, which the goroutine sends to
  the error channel.  In the C reader thread a timeout before any datagram has arrived
  ends the thread.
\<close>

theorem live_reader_timeout_counterexample:
  "readUdp [Read_ok 188 (188, False), Read_fails 0 True] = Returned (Some EAV_IO_TIMEOUT)
   \<and> serveOneConnection_errors [Read_ok 188 (188, False), Read_fails 0 True] = [EAV_IO_TIMEOUT]
   \<and> udp_thread_func [(0, [], 0)] [] = Thread_exited []"
  by (simp add: readUdp_def serveOneConnection_errors_def)

text \<open>
  Claim C6, amended.  In the Go reader, a timeout after at least one byte has been read
  ends the reader, which returns the distinguished error \<^verbatim>\<open>EAV_IO_TIMEOUT\<close> (its
  deferred calls close the writer and the socket) and the goroutine reports that error
  on the error channel; timeouts before any byte has arrived are skipped, so after any
  number of them the reader is still reading, has returned nothing and has reported
  nothing.  The C reader thread exits at the first timeout (or poll error), whether or
  not a datagram has arrived before.
\<close>

theorem live_reader_timeout:
  "(0 < bytesRead \<longrightarrow>
      readUdp_loop (Read_fails 0 True # es) bytesRead = Returned (Some EAV_IO_TIMEOUT))
   \<and> (0 < n \<longrightarrow>
      readUdp (Read_ok n (int n, False) # Read_fails 0 True # es) = Returned (Some EAV_IO_TIMEOUT)
      \<and> serveOneConnection_errors (Read_ok n (int n, False) # Read_fails 0 True # es)
            = [EAV_IO_TIMEOUT])
   \<and> readUdp (replicate k (Read_fails 0 True) @ es) = readUdp es
   \<and> readUdp (replicate k (Read_fails 0 True)) = Still_reading 0
   \<and> serveOneConnection_errors (replicate k (Read_fails 0 True)) = []
   \<and> (readable \<le> 0 \<longrightarrow> udp_thread_func ((readable, d, m) # es') sent = Thread_exited sent)"
proof -
  have a: "readUdp (replicate k (Read_fails 0 True) @ es) = readUdp es"
    by (simp add: readUdp_def readUdp_loop_early_timeouts)
  have b: "readUdp (replicate k (Read_fails 0 True)) = Still_reading 0"
    using readUdp_loop_early_timeouts[of k "[]"] by (simp add: readUdp_def)
  have c: "serveOneConnection_errors (replicate k (Read_fails 0 True)) = []"
    by (simp add: serveOneConnection_errors_def b)
  have d: "0 < n \<longrightarrow>
      readUdp (Read_ok n (int n, False) # Read_fails 0 True # es) = Returned (Some EAV_IO_TIMEOUT)
      \<and> serveOneConnection_errors (Read_ok n (int n, False) # Read_fails 0 True # es)
            = [EAV_IO_TIMEOUT]"
    by (simp add: readUdp_def serveOneConnection_errors_def)
  show ?thesis using a b c d by simp
qed

theorem live_reader_timeout_witness:
  "(0::int) < 188 \<and> (0::nat) < 1316 \<and> (0::int) \<le> 0
   \<and> readUdp_loop [Read_fails 0 True] 188 = Returned (Some EAV_IO_TIMEOUT)
   \<and> readUdp [Read_ok 1316 (1316, False), Read_fails 0 True] = Returned (Some EAV_IO_TIMEOUT)
   \<and> readUdp (replicate 3 (Read_fails 0 True)) = Still_reading 0
   \<and> udp_thread_func [(0, [], 0), (1, [71], 1)] [] = Thread_exited []"
proof -
  have e: "readUdp [] = Still_reading 0" by (simp add: readUdp_def)
  show ?thesis
    using live_reader_timeout[of 188 "[]" 1316 3 0 "[]" 0 "[(1, [71], 1)]" "[]"] e
    by simp
qed

section \<open>Names of the output files\<close>

declare dec_digits.simps [simp del]

lemma dec_digits_small: "n < 10 \<Longrightarrow> dec_digits n = [digit_char n]"
  by (subst dec_digits.simps) simp

lemma dec_digits_large:
  "\<not> n < 10 \<Longrightarrow> dec_digits n = dec_digits (n div 10) @ [digit_char (n mod 10)]"
  by (subst dec_digits.simps) simp

lemma dec_digits_length: "n < 10 ^ k \<Longrightarrow> 0 < k \<Longrightarrow> length (dec_digits n) \<le> k"
proof (induction n arbitrary: k rule: dec_digits.induct)
  case (1 n)
  show ?case
  proof (cases "n < 10")
    case True
    then show ?thesis using "1.prems" by (simp add: dec_digits_small)
  next
    case False
    then obtain j where k: "k = Suc j" using "1.prems"(2) by (cases k) auto
    have j0: "0 < j"
    proof (rule ccontr)
      assume "\<not> 0 < j"
      then have "k = 1" using k by simp
      then show False using "1.prems"(1) False by simp
    qed
    have "n div 10 < 10 ^ j" using "1.prems"(1) k by (simp add: less_mult_imp_div_less mult.commute)
    then have "length (dec_digits (n div 10)) \<le> j" using "1.IH"[OF False _ j0] by simp
    then show ?thesis using False k by (simp add: dec_digits_large)
  qed
qed

lemma dec_digits_nonempty: "0 < length (dec_digits n)"
  by (cases "n < 10") (simp_all add: dec_digits_small dec_digits_large)

lemma digit_value_digit_char: "d < 10 \<Longrightarrow> digit_value (digit_char d) = d"
proof -
  assume "d < 10"
  then have "d \<in> {0, 1, 2, 3, 4, 5, 6, 7, 8, 9}" by auto
  then show ?thesis by (auto simp: digit_value_def digit_char_def)
qed

lemma read_decimal_snoc: "read_decimal (s @ [ch]) = 10 * read_decimal s + digit_value ch"
  by (simp add: read_decimal_def)

lemma read_decimal_dec_digits: "read_decimal (dec_digits n) = n"
proof (induction n rule: dec_digits.induct)
  case (1 n)
  show ?case
  proof (cases "n < 10")
    case True
    then show ?thesis by (simp add: dec_digits_small read_decimal_def digit_value_digit_char)
  next
    case False
    have "read_decimal (dec_digits n) = 10 * read_decimal (dec_digits (n div 10)) + n mod 10"
      using False by (simp add: dec_digits_large read_decimal_snoc digit_value_digit_char)
    then show ?thesis using "1.IH"[OF False] by simp
  qed
qed

lemma read_decimal_zeros: "read_decimal (replicate k CHR ''0'' @ s) = read_decimal s"
proof (induction k)
  case 0
  then show ?case by simp
next
  case (Suc k)
  have z: "digit_value CHR ''0'' = 0" by (simp add: digit_value_def)
  have "read_decimal (CHR ''0'' # replicate k CHR ''0'' @ s)
        = foldl (\<lambda>acc ch. 10 * acc + digit_value ch) 0 (replicate k CHR ''0'' @ s)"
    unfolding read_decimal_def by (simp add: z)
  then show ?case using Suc by (simp add: read_decimal_def)
qed

lemma printf_05d_nonneg:
  assumes "0 \<le> i"
  shows "read_decimal (printf_05d i) = nat i"
    and "i < 100000 \<Longrightarrow> length (printf_05d i) = 5"
proof -
  have p: "printf_05d i = replicate (5 - length (dec_digits (nat i))) CHR ''0'' @ dec_digits (nat i)"
    using assms by (simp add: printf_05d_def Let_def)
  show "read_decimal (printf_05d i) = nat i"
    unfolding p by (simp add: read_decimal_zeros read_decimal_dec_digits)
  assume "i < 100000"
  then have "nat i < 10 ^ 5" using assms by simp
  then have "length (dec_digits (nat i)) \<le> 5" by (rule dec_digits_length) simp
  then show "length (printf_05d i) = 5" unfolding p by simp
qed

lemma printf_d_length:
  assumes "- 2147483648 \<le> i" "i < 2147483648"
  shows "length (printf_d i) \<le> 11"
proof -
  have "nat \<bar>i\<bar> < 10 ^ 10" using assms by simp
  then have l: "length (dec_digits (nat \<bar>i\<bar>)) \<le> 10" by (rule dec_digits_length) simp
  show ?thesis
  proof (cases "i < 0")
    case True
    then have "nat (- i) = nat \<bar>i\<bar>" by simp
    then show ?thesis using True l by (simp add: printf_d_def)
  next
    case False
    then have "nat i = nat \<bar>i\<bar>" by simp
    then show ?thesis using False l by (simp add: printf_d_def)
  qed
qed

lemma printf_05d_length:
  assumes "- 2147483648 \<le> i" "i < 2147483648"
  shows "length (printf_05d i) \<le> 11"
proof -
  have "nat \<bar>i\<bar> < 10 ^ 10" using assms by simp
  then have l: "length (dec_digits (nat \<bar>i\<bar>)) \<le> 10" by (rule dec_digits_length) simp
  show ?thesis
  proof (cases "i < 0")
    case True
    have "length (printf_05d i)
          = 1 + ((4 - length (dec_digits (nat \<bar>i\<bar>))) + length (dec_digits (nat \<bar>i\<bar>)))"
      using True by (simp add: printf_05d_def Let_def)
    then show ?thesis using l by arith
  next
    case False
    have "length (printf_05d i)
          = (5 - length (dec_digits (nat \<bar>i\<bar>))) + length (dec_digits (nat \<bar>i\<bar>))"
      using False by (simp add: printf_05d_def Let_def)
    then show ?thesis using l by arith
  qed
qed

lemma out_opener_segname_spec:
  "out_opener_segname (Some ty) url gfd si sg
     = Some (out_dir ty gfd @ ''/'' @ spec_file_name ty url si sg)"
  by (cases ty) (simp_all add: out_opener_segname_def out_dir_def spec_segment_name_def Let_def)

lemma segment_path_length:
  assumes "is_segment ty"
    and "- 2147483648 \<le> gfd" "gfd < 2147483648"
    and "- 2147483648 \<le> si" "si < 2147483648"
    and "- 2147483648 \<le> sg" "sg < 2147483648"
  shows "length (out_dir ty gfd @ ''/'' @ spec_file_name ty url si sg) < 128"
proof -
  note l = printf_d_length[OF assms(2,3)] printf_d_length[OF assms(4,5)]
           printf_05d_length[OF assms(6,7)]
  show ?thesis using assms(1) l
    by (cases ty) (simp_all add: out_dir_def spec_segment_name_def)
qed

text \<open>
  Claim C9.  For every kind of output, the path \<^verbatim>\<open>out_opener\<close> of the command-line tool
  writes into \<^verbatim>\<open>segname\<close> is the directory of the session, a slash, and the name the
  convention gives for the kind: \<open>dash.mpd\<close> for the manifest, \<open>master.m3u8\<close> for the
  master playlist, the requested name for init, key and m3u files, and
  \<open><kind-prefix><streamIndex>-<segIndex:05d>.<ext>\<close> for media segments, with
  \<open>chunk-stream\<close> and \<open>m4s\<close> for DASH segments, \<open>segment\<close> and \<open>mp4\<close> for mp4 segments,
  \<open>fsegment\<close> and \<open>mp4\<close> for fmp4 segments.  Whenever that path fits the 128 bytes of
  \<^verbatim>\<open>segname\<close>, \<^verbatim>\<open>open\<close> is called with exactly that path, for every kind; a longer path
  overruns the buffer, and a value outside the enumeration opens nothing.  Conversely,
  whenever \<^verbatim>\<open>open\<close> is called, its path has that form.  For a media segment with 32-bit
  indices the path always fits.  The segment index field has exactly five digits for
  indices below 100000, and both index fields read back as the indices.
\<close>

theorem out_opener_follows_naming_convention:
  "(xc_out_opener ty url gfd si sg open_fd = Inr (rc, Some path) \<longrightarrow>
      (\<exists>t. ty = Some t \<and> path = out_dir t gfd @ ''/'' @ spec_file_name t url si sg))
   \<and> (is_segment t
        \<and> - 2147483648 \<le> gfd \<and> gfd < 2147483648
        \<and> - 2147483648 \<le> si \<and> si < 2147483648
        \<and> - 2147483648 \<le> sg \<and> sg < 2147483648 \<longrightarrow>
      xc_out_opener (Some t) url gfd si sg open_fd
        = Inr (if open_fd < 0 then - 1 else 0,
               Some (out_dir t gfd @ ''/'' @ spec_file_name t url si sg)))
   \<and> (0 \<le> sg \<and> sg < 100000 \<longrightarrow>
        length (printf_05d sg) = 5 \<and> read_decimal (printf_05d sg) = nat sg)
   \<and> (0 \<le> si \<longrightarrow> read_decimal (printf_d si) = nat si)
   \<and> out_opener_segname (Some t) url gfd si sg
        = Some (out_dir t gfd @ ''/'' @ spec_file_name t url si sg)
   \<and> (length (out_dir t gfd @ ''/'' @ spec_file_name t url si sg) < 128 \<longrightarrow>
      xc_out_opener (Some t) url gfd si sg open_fd
        = Inr (if open_fd < 0 then - 1 else 0,
               Some (out_dir t gfd @ ''/'' @ spec_file_name t url si sg)))
   \<and> (128 \<le> length (out_dir t gfd @ ''/'' @ spec_file_name t url si sg) \<longrightarrow>
      xc_out_opener (Some t) url gfd si sg open_fd = Inl Segname_overrun)
   \<and> xc_out_opener None url gfd si sg open_fd = Inr (- 1, None)
   \<and> spec_file_name avpipe_manifest url si sg = ''dash.mpd''
   \<and> spec_file_name avpipe_master_m3u url si sg = ''master.m3u8''
   \<and> spec_file_name avpipe_video_init_stream url si sg = url
   \<and> spec_file_name avpipe_audio_init_stream url si sg = url
   \<and> spec_file_name avpipe_video_m3u url si sg = url
   \<and> spec_file_name avpipe_audio_m3u url si sg = url
   \<and> spec_file_name avpipe_aes_128_key url si sg = url
   \<and> spec_file_name avpipe_video_segment url si sg
        = ''chunk-stream'' @ printf_d si @ ''-'' @ printf_05d sg @ ''.m4s''
   \<and> spec_file_name avpipe_audio_segment url si sg
        = ''chunk-stream'' @ printf_d si @ ''-'' @ printf_05d sg @ ''.m4s''
   \<and> spec_file_name avpipe_mp4_segment url si sg
        = ''segment'' @ printf_d si @ ''-'' @ printf_05d sg @ ''.mp4''
   \<and> spec_file_name avpipe_fmp4_segment url si sg
        = ''fsegment'' @ printf_d si @ ''-'' @ printf_05d sg @ ''.mp4''"
proof -
  have a: "xc_out_opener ty url gfd si sg open_fd = Inr (rc, Some path) \<longrightarrow>
      (\<exists>t. ty = Some t \<and> path = out_dir t gfd @ ''/'' @ spec_file_name t url si sg)"
  proof (cases ty)
    case None
    then show ?thesis by (simp add: xc_out_opener_def out_opener_segname_def)
  next
    case (Some t)
    show ?thesis unfolding Some xc_out_opener_def out_opener_segname_spec
      by (auto split: if_splits)
  qed
  have f: "length (out_dir t gfd @ ''/'' @ spec_file_name t url si sg) < 128 \<longrightarrow>
      xc_out_opener (Some t) url gfd si sg open_fd
        = Inr (if open_fd < 0 then - 1 else 0,
               Some (out_dir t gfd @ ''/'' @ spec_file_name t url si sg))"
    unfolding xc_out_opener_def out_opener_segname_spec by simp
  have b: "is_segment t
        \<and> - 2147483648 \<le> gfd \<and> gfd < 2147483648
        \<and> - 2147483648 \<le> si \<and> si < 2147483648
        \<and> - 2147483648 \<le> sg \<and> sg < 2147483648 \<longrightarrow>
      xc_out_opener (Some t) url gfd si sg open_fd
        = Inr (if open_fd < 0 then - 1 else 0,
               Some (out_dir t gfd @ ''/'' @ spec_file_name t url si sg))"
  proof
    assume h: "is_segment t
        \<and> - 2147483648 \<le> gfd \<and> gfd < 2147483648
        \<and> - 2147483648 \<le> si \<and> si < 2147483648
        \<and> - 2147483648 \<le> sg \<and> sg < 2147483648"
    then have "length (out_dir t gfd @ ''/'' @ spec_file_name t url si sg) < 128"
      using segment_path_length[of t gfd si sg url] by blast
    then show "xc_out_opener (Some t) url gfd si sg open_fd
        = Inr (if open_fd < 0 then - 1 else 0,
               Some (out_dir t gfd @ ''/'' @ spec_file_name t url si sg))"
      using f by blast
  qed
  have c: "0 \<le> sg \<and> sg < 100000 \<longrightarrow>
        length (printf_05d sg) = 5 \<and> read_decimal (printf_05d sg) = nat sg"
    using printf_05d_nonneg[of sg] by blast
  have d: "0 \<le> si \<longrightarrow> read_decimal (printf_d si) = nat si"
    by (simp add: printf_d_def read_decimal_dec_digits)
  have e: "out_opener_segname (Some t) url gfd si sg
        = Some (out_dir t gfd @ ''/'' @ spec_file_name t url si sg)"
    by (rule out_opener_segname_spec)
  have g: "128 \<le> length (out_dir t gfd @ ''/'' @ spec_file_name t url si sg) \<longrightarrow>
      xc_out_opener (Some t) url gfd si sg open_fd = Inl Segname_overrun"
    unfolding xc_out_opener_def out_opener_segname_spec by simp
  have h: "xc_out_opener None url gfd si sg open_fd = Inr (- 1, None)"
    by (simp add: xc_out_opener_def out_opener_segname_def)
  have n: "spec_file_name avpipe_manifest url si sg = ''dash.mpd''"
    "spec_file_name avpipe_master_m3u url si sg = ''master.m3u8''"
    "spec_file_name avpipe_video_init_stream url si sg = url"
    "spec_file_name avpipe_audio_init_stream url si sg = url"
    "spec_file_name avpipe_video_m3u url si sg = url"
    "spec_file_name avpipe_audio_m3u url si sg = url"
    "spec_file_name avpipe_aes_128_key url si sg = url"
    "spec_file_name avpipe_video_segment url si sg
        = ''chunk-stream'' @ printf_d si @ ''-'' @ printf_05d sg @ ''.m4s''"
    "spec_file_name avpipe_audio_segment url si sg
        = ''chunk-stream'' @ printf_d si @ ''-'' @ printf_05d sg @ ''.m4s''"
    "spec_file_name avpipe_mp4_segment url si sg
        = ''segment'' @ printf_d si @ ''-'' @ printf_05d sg @ ''.mp4''"
    "spec_file_name avpipe_fmp4_segment url si sg
        = ''fsegment'' @ printf_d si @ ''-'' @ printf_05d sg @ ''.mp4''"
    by (simp_all add: spec_segment_name_def)
  show ?thesis by (intro conjI a b c d e f g h n)
qed

theorem out_opener_naming_witness:
  "xc_out_opener (Some avpipe_video_segment) ''ignored'' 1 0 5 3
     = Inr (0, Some ''././O/O1/chunk-stream0-00005.m4s'')
   \<and> xc_out_opener (Some avpipe_fmp4_segment) ''ignored'' 1 1 123456 3
     = Inr (0, Some ''././O/O1/fsegment1-123456.mp4'')
   \<and> xc_out_opener (Some avpipe_manifest) ''ignored'' 12 0 0 3
     = Inr (0, Some ''./O/O12/dash.mpd'')
   \<and> xc_out_opener (Some avpipe_video_init_stream) ''init-stream0.m4s'' 12 0 0 3
     = Inr (0, Some ''./O/O12/init-stream0.m4s'')
   \<and> length (printf_05d 5) = 5
   \<and> xc_out_opener (Some avpipe_master_m3u) ''ignored'' 12 0 0 3
     = Inr (0, Some ''./O/O12/master.m3u8'')
   \<and> xc_out_opener (Some avpipe_aes_128_key) ''key.bin'' 12 0 0 3
     = Inr (0, Some ''./O/O12/key.bin'')
   \<and> xc_out_opener (Some avpipe_audio_m3u) ''media_1.m3u8'' 12 1 0 (- 1)
     = Inr (- 1, Some ''./O/O12/media_1.m3u8'')"
proof -
  have d: "printf_d 0 = ''0''" "printf_d 1 = ''1''" "printf_d 12 = ''12''"
    by (simp_all add: printf_d_def dec_digits.simps digit_char_def)
  have dd: "dec_digits 5 = ''5''" "dec_digits 123456 = ''123456''"
    by (simp_all add: dec_digits.simps digit_char_def)
  have r4: "replicate 4 CHR ''0'' = ''0000''" by (simp add: numeral_eq_Suc)
  have p: "printf_05d 5 = ''00005''" "printf_05d 123456 = ''123456''"
    by (simp_all add: printf_05d_def Let_def dd r4)
  have r: "is_segment avpipe_video_segment
        \<and> - 2147483648 \<le> (1::int) \<and> (1::int) < 2147483648
        \<and> - 2147483648 \<le> (0::int) \<and> (0::int) < 2147483648
        \<and> - 2147483648 \<le> (5::int) \<and> (5::int) < 2147483648" by simp
  have s: "(0::int) \<le> 5 \<and> (5::int) < 100000" by simp
  have n: "out_dir avpipe_video_segment 1 @ ''/'' @ spec_file_name avpipe_video_segment ''ignored'' 0 5
           = ''././O/O1/chunk-stream0-00005.m4s''"
    by (simp add: out_dir_def spec_segment_name_def d p)
  have a: "xc_out_opener (Some avpipe_video_segment) ''ignored'' 1 0 5 3
     = Inr (0, Some ''././O/O1/chunk-stream0-00005.m4s'')"
    using out_opener_follows_naming_convention
            [of "Some avpipe_video_segment" "''ignored''" 1 0 5 3 0 "[]" avpipe_video_segment] r n
    by simp
  have l: "length (printf_05d 5) = 5"
    using out_opener_follows_naming_convention
            [of "Some avpipe_video_segment" "''ignored''" 1 0 5 3 0 "[]" avpipe_video_segment] s
    by blast
  have b: "xc_out_opener (Some avpipe_fmp4_segment) ''ignored'' 1 1 123456 3
     = Inr (0, Some ''././O/O1/fsegment1-123456.mp4'')"
    "xc_out_opener (Some avpipe_manifest) ''ignored'' 12 0 0 3
     = Inr (0, Some ''./O/O12/dash.mpd'')"
    "xc_out_opener (Some avpipe_video_init_stream) ''init-stream0.m4s'' 12 0 0 3
     = Inr (0, Some ''./O/O12/init-stream0.m4s'')"
    by (simp_all add: xc_out_opener_def out_opener_segname_def Let_def d p)
  have m1: "out_dir avpipe_master_m3u 12 @ ''/'' @ spec_file_name avpipe_master_m3u ''ignored'' 0 0
            = ''./O/O12/master.m3u8''"
    by (simp add: out_dir_def d)
  have m2: "xc_out_opener (Some avpipe_master_m3u) ''ignored'' 12 0 0 3
     = Inr (0, Some ''./O/O12/master.m3u8'')"
    using out_opener_follows_naming_convention
            [of "Some avpipe_master_m3u" "''ignored''" 12 0 0 3 0 "[]" avpipe_master_m3u]
    unfolding m1 by simp
  have k1: "out_dir avpipe_aes_128_key 12 @ ''/'' @ spec_file_name avpipe_aes_128_key ''key.bin'' 0 0
            = ''./O/O12/key.bin''"
    by (simp add: out_dir_def d)
  have k2: "xc_out_opener (Some avpipe_aes_128_key) ''key.bin'' 12 0 0 3
     = Inr (0, Some ''./O/O12/key.bin'')"
    using out_opener_follows_naming_convention
            [of "Some avpipe_aes_128_key" "''key.bin''" 12 0 0 3 0 "[]" avpipe_aes_128_key]
    unfolding k1 by simp
  have u1: "out_dir avpipe_audio_m3u 12 @ ''/'' @ spec_file_name avpipe_audio_m3u ''media_1.m3u8'' 1 0
            = ''./O/O12/media_1.m3u8''"
    by (simp add: out_dir_def d)
  have u2: "xc_out_opener (Some avpipe_audio_m3u) ''media_1.m3u8'' 12 1 0 (- 1)
     = Inr (- 1, Some ''./O/O12/media_1.m3u8'')"
    using out_opener_follows_naming_convention
            [of "Some avpipe_audio_m3u" "''media_1.m3u8''" 12 1 0 "- 1" 0 "[]" avpipe_audio_m3u]
    unfolding u1 by simp
  show ?thesis using a b l m2 k2 u2 by simp
qed

end
